theory Spec2Isabelle
  imports Complex_Main "HOL-Library.Word" "HOL-Library.Sublist" "HOL-Library.Monad_Syntax"
begin

section \<open>JavaScript values\<close>

text \<open>
  A JavaScript string is a sequence of UTF-16 code units, and \<open>.length\<close> counts code
  units; \<open>lit\<close> embeds an ASCII literal of the source.
\<close>

type_synonym code_unit = "16 word"
type_synonym jsstring = "code_unit list"

definition lit :: "string \<Rightarrow> jsstring" where
  "lit s = map (\<lambda>c. of_nat (of_char c)) s"

text \<open>
  The values that \<open>JSON.parse\<close> produces, with \<open>undefined\<close> for an absent property.
  A finite number is the rational it denotes; \<open>JInfinity True\<close> is \<open>Infinity\<close> and
  \<open>JInfinity False\<close> is \<open>-Infinity\<close> (what an overflowing literal such as
  \<open>1e999\<close> parses to). An object is the list of its own properties, keys distinct.
\<close>

datatype jsval =
    JUndefined
  | JNull
  | JBool bool
  | JNum rat
  | JInfinity bool
  | JStr jsstring
  | JArr "jsval list"
  | JObj "(jsstring \<times> jsval) list"

text \<open>\<open>!v\<close> is \<open>\<not> truthy v\<close>.\<close>

fun truthy :: "jsval \<Rightarrow> bool" where
  "truthy JUndefined = False"
| "truthy JNull = False"
| "truthy (JBool b) = b"
| "truthy (JNum r) = (r \<noteq> 0)"
| "truthy (JInfinity b) = True"
| "truthy (JStr s) = (s \<noteq> [])"
| "truthy (JArr vs) = True"
| "truthy (JObj kvs) = True"

definition nullish :: "jsval \<Rightarrow> bool" where
  "nullish v = (v = JUndefined \<or> v = JNull)"

text \<open>
  \<open>v.k\<close> on a value that is neither \<open>undefined\<close> nor \<open>null\<close>, for the property names
  the source reads (\<open>jsonrpc\<close>, \<open>id\<close>, \<open>method\<close>, \<open>params\<close>, \<open>name\<close>, \<open>arguments\<close>,
  \<open>results\<close>, \<open>index\<close>, \<open>relevance_score\<close>): none of them is a property of a
  primitive's or an array's prototype.
\<close>

definition getprop :: "jsval \<Rightarrow> jsstring \<Rightarrow> jsval" where
  "getprop v k =
     (case v of
        JObj kvs \<Rightarrow> (case map_of kvs k of Some x \<Rightarrow> x | None \<Rightarrow> JUndefined)
      | _ \<Rightarrow> JUndefined)"

text \<open>An exception: an object with a \<open>name\<close> and a \<open>message\<close>.\<close>

datatype js_error = JSError (error_name: jsstring) (error_message: jsstring)

definition Error :: "jsstring \<Rightarrow> js_error" where
  "Error m = JSError (lit ''Error'') m"

text \<open>The faults for which the engine itself throws a \<open>TypeError\<close>.\<close>

datatype engine_fault =
    ReadOfNullish jsval jsstring
  | DestructureNullish jsval
  | NotAFunction jsval jsstring
  | NotPrimitive jsval

datatype schema = RerankRequestSchema | RerankResponseSchema

text \<open>
  What the source takes from its platform and from the zod library, as parameters:
  the text \<open>JSON.stringify(v, null, n)\<close>, \<open>JSON.parse\<close>, the string a template
  literal converts a value to (where the conversion returns), the message of an engine
  \<open>TypeError\<close>, and the message of the \<open>ZodError\<close> that \<open>schema.parse(v)\<close> throws.
\<close>

record platform =
  JSON_stringify :: "jsval \<Rightarrow> nat \<Rightarrow> jsstring"
  JSON_parse :: "jsstring \<Rightarrow> js_error + jsval"
  ToString :: "jsval \<Rightarrow> jsstring"
  TypeError_message :: "engine_fault \<Rightarrow> jsstring"
  ZodError_message :: "schema \<Rightarrow> jsval \<Rightarrow> jsstring"

definition TypeError :: "platform \<Rightarrow> engine_fault \<Rightarrow> js_error" where
  "TypeError p f = JSError (lit ''TypeError'') (TypeError_message p f)"

text \<open>\<open>v.k\<close> on any value: reading a property of \<open>undefined\<close> or \<open>null\<close> throws.\<close>

definition member :: "platform \<Rightarrow> jsval \<Rightarrow> jsstring \<Rightarrow> js_error + jsval" where
  "member p v k =
     (if nullish v then Inl (TypeError p (ReadOfNullish v k)) else Inr (getprop v k))"

text \<open>
  \<open>${v}\<close> inside a template literal converts \<open>v\<close> to a string, and the conversion
  can throw. For an object it calls the method \<open>toString\<close> and then \<open>valueOf\<close>: an
  object read from JSON that has an own property \<open>toString\<close> (a JSON value, never a
  function) is left with no method that returns a primitive, and the conversion throws a
  \<open>TypeError\<close>; without one it inherits \<open>Object.prototype.toString\<close>. For an array
  the conversion joins the conversions of the elements (the empty string for \<open>null\<close>),
  so it throws when that of an element does. No other value throws.
\<close>

fun ToString_throws :: "jsval \<Rightarrow> bool" where
  "ToString_throws (JObj kvs) = (map_of kvs (lit ''toString'') \<noteq> None)"
| "ToString_throws (JArr vs) = list_ex ToString_throws vs"
| "ToString_throws JUndefined = False"
| "ToString_throws JNull = False"
| "ToString_throws (JBool b) = False"
| "ToString_throws (JNum r) = False"
| "ToString_throws (JInfinity b) = False"
| "ToString_throws (JStr s) = False"

definition template :: "platform \<Rightarrow> jsval \<Rightarrow> js_error + jsstring" where
  "template p v =
     (case v of
        JStr s \<Rightarrow> Inr s
      | _ \<Rightarrow>
          if ToString_throws v then Inl (TypeError p (NotPrimitive v))
          else Inr (ToString p v))"

text \<open>\<open>${n}\<close> for a number that is a non-negative integer: its decimal digits.\<close>

fun decimal :: "nat \<Rightarrow> jsstring" where
  "decimal n =
     (if n < 10 then [of_nat (48 + n)]
      else decimal (n div 10) @ [of_nat (48 + n mod 10)])"

declare decimal.simps [simp del]

text \<open>\<open>s.includes(t)\<close>.\<close>

fun str_includes :: "jsstring \<Rightarrow> jsstring \<Rightarrow> bool" where
  "str_includes [] t = (t = [])"
| "str_includes (c # s) t = (prefix t (c # s) \<or> str_includes s t)"

text \<open>
  \<open>s.trim()\<close> removes leading and trailing white space and line terminators
  (ECMAScript \<open>WhiteSpace\<close> and \<open>LineTerminator\<close>).
\<close>

definition is_white_space :: "code_unit \<Rightarrow> bool" where
  "is_white_space c =
     (c \<in> {0x0009, 0x000A, 0x000B, 0x000C, 0x000D, 0x0020, 0x00A0, 0x1680,
            0x2000, 0x2001, 0x2002, 0x2003, 0x2004, 0x2005, 0x2006, 0x2007,
            0x2008, 0x2009, 0x200A, 0x2028, 0x2029, 0x202F, 0x205F, 0x3000, 0xFEFF})"

definition trim :: "jsstring \<Rightarrow> jsstring" where
  "trim s = rev (dropWhile is_white_space (rev (dropWhile is_white_space s)))"

section \<open>Constants\<close>

definition ZERANK_API_BASE :: jsstring where
  "ZERANK_API_BASE = lit ''https://api.zeroentropy.dev/v1/models/rerank''"

definition PARSE_ERROR :: rat where "PARSE_ERROR = - 32700"
definition INVALID_REQUEST :: rat where "INVALID_REQUEST = - 32600"
definition METHOD_NOT_FOUND :: rat where "METHOD_NOT_FOUND = - 32601"
definition INVALID_PARAMS :: rat where "INVALID_PARAMS = - 32602"
definition INTERNAL_ERROR :: rat where "INTERNAL_ERROR = - 32603"

section \<open>The zod schemas\<close>

text \<open>
  Each combinator returns the parsed value, or \<open>None\<close> where zod records an issue.
  \<open>schema.parse\<close> returns the value when there is no issue and throws a \<open>ZodError\<close>
  otherwise.
\<close>

definition z_string :: "jsval \<Rightarrow> jsstring option" where
  "z_string v = (case v of JStr s \<Rightarrow> Some s | _ \<Rightarrow> None)"

definition z_number :: "jsval \<Rightarrow> rat option" where
  "z_number v = (case v of JNum r \<Rightarrow> Some r | _ \<Rightarrow> None)"

definition z_array :: "(jsval \<Rightarrow> 'a option) \<Rightarrow> jsval \<Rightarrow> 'a list option" where
  "z_array item v = (case v of JArr vs \<Rightarrow> those (map item vs) | _ \<Rightarrow> None)"

definition z_min :: "nat \<Rightarrow> 'a list \<Rightarrow> 'a list option" where
  "z_min n xs = (if n \<le> length xs then Some xs else None)"

definition z_max :: "nat \<Rightarrow> 'a list \<Rightarrow> 'a list option" where
  "z_max n xs = (if length xs \<le> n then Some xs else None)"

definition z_refine :: "('a \<Rightarrow> bool) \<Rightarrow> 'a \<Rightarrow> 'a option" where
  "z_refine check x = (if check x then Some x else None)"

definition z_int :: "rat \<Rightarrow> rat option" where
  "z_int r = (if of_int \<lfloor>r\<rfloor> = r then Some r else None)"

definition z_min_number :: "rat \<Rightarrow> rat \<Rightarrow> rat option" where
  "z_min_number lo r = (if lo \<le> r then Some r else None)"

definition z_max_number :: "rat \<Rightarrow> rat \<Rightarrow> rat option" where
  "z_max_number hi r = (if r \<le> hi then Some r else None)"

record rerank_request =
  query :: jsstring
  documents :: "jsstring list"
  api_key :: jsstring

record rerank_result =
  index :: rat
  relevance_score :: rat

record rerank_response =
  results :: "rerank_result list"

text \<open>The schema of each field, as the source declares it.\<close>

definition query_schema :: "jsval \<Rightarrow> jsstring option" where
  "query_schema x = z_string x \<bind> z_min 1 \<bind> z_max 10000"

definition documents_schema :: "jsval \<Rightarrow> jsstring list option" where
  "documents_schema x =
     z_array z_string x \<bind> z_min 1 \<bind> z_max 1000
       \<bind> z_refine (list_all (\<lambda>doc. length (trim doc) > 0))"

definition api_key_schema :: "jsval \<Rightarrow> jsstring option" where
  "api_key_schema x = z_string x \<bind> z_min 1"

definition index_schema :: "jsval \<Rightarrow> rat option" where
  "index_schema x = z_number x \<bind> z_int \<bind> z_min_number 0 \<bind> z_max_number 1000"

definition relevance_score_schema :: "jsval \<Rightarrow> rat option" where
  "relevance_score_schema x = z_number x \<bind> z_min_number 0 \<bind> z_max_number 1"

text \<open>\<open>z.object\<close>: the value must be an object, and each field must parse.\<close>

definition RerankRequestSchema_safeParse :: "jsval \<Rightarrow> rerank_request option" where
  "RerankRequestSchema_safeParse v =
     (case v of
        JObj kvs \<Rightarrow> do {
          q \<leftarrow> query_schema (getprop v (lit ''query''));
          ds \<leftarrow> documents_schema (getprop v (lit ''documents''));
          k \<leftarrow> api_key_schema (getprop v (lit ''api_key''));
          Some \<lparr>query = q, documents = ds, api_key = k\<rparr>
        }
      | _ \<Rightarrow> None)"

definition RerankResultSchema_safeParse :: "jsval \<Rightarrow> rerank_result option" where
  "RerankResultSchema_safeParse v =
     (case v of
        JObj kvs \<Rightarrow> do {
          i \<leftarrow> index_schema (getprop v (lit ''index''));
          s \<leftarrow> relevance_score_schema (getprop v (lit ''relevance_score''));
          Some \<lparr>index = i, relevance_score = s\<rparr>
        }
      | _ \<Rightarrow> None)"

definition results_schema :: "jsval \<Rightarrow> rerank_result list option" where
  "results_schema x = z_array RerankResultSchema_safeParse x \<bind> z_min 1 \<bind> z_max 1000"

definition RerankResponseSchema_safeParse :: "jsval \<Rightarrow> rerank_response option" where
  "RerankResponseSchema_safeParse v =
     (case v of
        JObj kvs \<Rightarrow> do {
          rs \<leftarrow> results_schema (getprop v (lit ''results''));
          Some \<lparr>results = rs\<rparr>
        }
      | _ \<Rightarrow> None)"

definition ZodError :: "platform \<Rightarrow> schema \<Rightarrow> jsval \<Rightarrow> js_error" where
  "ZodError p sch v = JSError (lit ''ZodError'') (ZodError_message p sch v)"

definition RerankRequestSchema_parse :: "platform \<Rightarrow> jsval \<Rightarrow> js_error + rerank_request" where
  "RerankRequestSchema_parse p v =
     (case RerankRequestSchema_safeParse v of
        Some r \<Rightarrow> Inr r
      | None \<Rightarrow> Inl (ZodError p RerankRequestSchema v))"

definition RerankResponseSchema_parse :: "platform \<Rightarrow> jsval \<Rightarrow> js_error + rerank_response" where
  "RerankResponseSchema_parse p v =
     (case RerankResponseSchema_safeParse v of
        Some r \<Rightarrow> Inr r
      | None \<Rightarrow> Inl (ZodError p RerankResponseSchema v))"

text \<open>The object a validated response is, as \<open>JSON.stringify\<close> receives it.\<close>

definition rerank_result_value :: "rerank_result \<Rightarrow> jsval" where
  "rerank_result_value r =
     JObj [(lit ''index'', JNum (index r)), (lit ''relevance_score'', JNum (relevance_score r))]"

definition rerank_response_value :: "rerank_response \<Rightarrow> jsval" where
  "rerank_response_value r = JObj [(lit ''results'', JArr (map rerank_result_value (results r)))]"

section \<open>The rerank client\<close>

text \<open>
  The outbound request as \<open>fetch\<close> receives it, and what \<open>fetch\<close> resolves to: the
  status and the outcome of \<open>response.json()\<close>. The upstream service is a function from
  the request to the outcome of the call (\<open>Inl\<close> when the promise rejects).
  Every HTTP body the source sends is \<open>JSON.stringify(v)\<close> of an object it has just
  built; a body is kept as that object \<open>v\<close>, so that its fields can be read.
\<close>

record http_request =
  req_url :: jsstring
  req_method :: jsstring
  req_headers :: "(jsstring \<times> jsstring) list"
  req_body :: jsval

record fetch_response =
  status :: nat
  json :: "js_error + jsval"

type_synonym fetch_fn = "http_request \<Rightarrow> js_error + fetch_response"

text \<open>\<open>response.ok\<close>: the status is in the range 200 to 299 (Fetch standard).\<close>

definition ok :: "fetch_response \<Rightarrow> bool" where
  "ok response = (200 \<le> status response \<and> status response \<le> 299)"

text \<open>
  \<open>result.results.map(r => ({index: r.index, relevance_score: r.relevance_score}))\<close>:
  calling \<open>map\<close> on anything but an array throws, and so does the callback on a
  \<open>null\<close> element.
\<close>

fun map_results :: "platform \<Rightarrow> jsval list \<Rightarrow> js_error + jsval list" where
  "map_results p [] = Inr []"
| "map_results p (r # rs) =
     (case member p r (lit ''index'') of
        Inl error \<Rightarrow> Inl error
      | Inr i \<Rightarrow>
          (case member p r (lit ''relevance_score'') of
             Inl error \<Rightarrow> Inl error
           | Inr s \<Rightarrow>
               (case map_results p rs of
                  Inl error \<Rightarrow> Inl error
                | Inr out \<Rightarrow>
                    Inr (JObj [(lit ''index'', i), (lit ''relevance_score'', s)] # out))))"

definition results_map :: "platform \<Rightarrow> jsval \<Rightarrow> js_error + jsval list" where
  "results_map p v =
     (case v of
        JArr rs \<Rightarrow> map_results p rs
      | _ \<Rightarrow> Inl (TypeError p (NotAFunction v (lit ''map''))))"

text \<open>The body of the \<open>try\<close> block, from the outcome of \<open>fetch\<close> on.\<close>

definition makeRerankRequest_try :: "platform \<Rightarrow> js_error + fetch_response \<Rightarrow> js_error + rerank_response" where
  "makeRerankRequest_try p fetched =
     (case fetched of
        Inl error \<Rightarrow> Inl error
      | Inr response \<Rightarrow>
          if \<not> ok response then
            (if status response = 401 then Inl (Error (lit ''Invalid API key''))
             else if status response = 429 then Inl (Error (lit ''Rate limit exceeded''))
             else Inl (Error (lit ''API error: '' @ decimal (status response))))
          else
            (case json response of
               Inl error \<Rightarrow> Inl error
             | Inr result \<Rightarrow>
                 (case member p result (lit ''results'') of
                    Inl error \<Rightarrow> Inl error
                  | Inr rs \<Rightarrow>
                      if \<not> truthy rs then Inl (Error (lit ''Invalid API response format''))
                      else
                        (case results_map p rs of
                           Inl error \<Rightarrow> Inl error
                         | Inr mapped \<Rightarrow>
                             RerankResponseSchema_parse p
                               (JObj [(lit ''results'', JArr mapped)])))))"

text \<open>The \<open>catch\<close> clause: what it throws for the error it caught.\<close>

definition makeRerankRequest_catch :: "js_error \<Rightarrow> js_error" where
  "makeRerankRequest_catch error =
     (if error_name error = lit ''TypeError'' \<and> str_includes (error_message error) (lit ''fetch'')
      then Error (lit ''Request error: '' @ error_message error)
      else error)"

definition rerank_http_request :: "jsstring \<Rightarrow> jsstring list \<Rightarrow> jsstring \<Rightarrow> http_request" where
  "rerank_http_request query' documents' apiKey =
     \<lparr>req_url = ZERANK_API_BASE,
      req_method = lit ''POST'',
      req_headers =
        [(lit ''Authorization'', lit ''Bearer '' @ apiKey),
         (lit ''Content-Type'', lit ''application/json'')],
      req_body =
        JObj [(lit ''query'', JStr query'), (lit ''documents'', JArr (map JStr documents'))]\<rparr>"

text \<open>
  \<open>makeRerankRequest\<close> (the same text in all three source files): the requests it
  issued, in order, and its result (\<open>Inl\<close> the error it throws).
\<close>

definition makeRerankRequest :: "platform \<Rightarrow> fetch_fn \<Rightarrow> jsstring \<Rightarrow> jsstring list \<Rightarrow> jsstring \<Rightarrow> http_request list \<times> (js_error + rerank_response)" where
  "makeRerankRequest p fetch query' documents' apiKey =
     (let request = rerank_http_request query' documents' apiKey in
      ([request],
       (case makeRerankRequest_try p (fetch request) of
          Inl error \<Rightarrow> Inl (makeRerankRequest_catch error)
        | Inr response \<Rightarrow> Inr response)))"

section \<open>The protocol-conformant server\<close>

text \<open>
  A \<open>Response\<close>: the value whose JSON text is its body (\<open>None\<close> for a response
  without a body), the status (200 when the source gives none) and the headers.
\<close>

record response =
  resp_body :: "jsval option"
  resp_status :: nat
  resp_headers :: "(jsstring \<times> jsstring) list"

text \<open>The instance state; \<open>ctx\<close> and \<open>env\<close> are stored and never read.\<close>

record MCPServer =
  initialized :: bool

definition constructor :: MCPServer where
  "constructor = \<lparr>initialized = False\<rparr>"

definition json_headers :: "(jsstring \<times> jsstring) list" where
  "json_headers = [(lit ''Content-Type'', lit ''application/json'')]"

text \<open>
  The object that \<open>createErrorResponse\<close> serialises. The default \<open>id = null\<close> applies
  when the argument is \<open>undefined\<close>; every call of the source passes a code, so the
  default of \<open>code\<close> is never used.
\<close>

definition error_envelope :: "jsstring \<Rightarrow> jsval \<Rightarrow> rat \<Rightarrow> jsval" where
  "error_envelope message id' code =
     JObj [(lit ''jsonrpc'', JStr (lit ''2.0'')),
           (lit ''error'', JObj [(lit ''code'', JNum code), (lit ''message'', JStr message)]),
           (lit ''id'', if id' = JUndefined then JNull else id')]"

definition createErrorResponse :: "jsstring \<Rightarrow> jsval \<Rightarrow> rat \<Rightarrow> response" where
  "createErrorResponse message id' code =
     \<lparr>resp_body = Some (error_envelope message id' code),
      resp_status = 500,
      resp_headers = json_headers\<rparr>"

definition handleInitialize :: "MCPServer \<Rightarrow> jsval \<Rightarrow> jsval \<Rightarrow> MCPServer \<times> response" where
  "handleInitialize this params id' =
     (this\<lparr>initialized := True\<rparr>,
      \<lparr>resp_body = Some
         (JObj [(lit ''jsonrpc'', JStr (lit ''2.0'')),
                (lit ''id'', id'),
                (lit ''result'',
                 JObj [(lit ''protocolVersion'', JStr (lit ''2024-11-05'')),
                       (lit ''capabilities'', JObj [(lit ''tools'', JObj [])]),
                       (lit ''serverInfo'',
                        JObj [(lit ''name'', JStr (lit ''zerank-mcp'')),
                              (lit ''version'', JStr (lit ''0.1.0''))])])]),
       resp_status = 200,
       resp_headers = json_headers\<rparr>)"

definition handleInitialized :: "jsval \<Rightarrow> response" where
  "handleInitialized params = \<lparr>resp_body = None, resp_status = 204, resp_headers = []\<rparr>"

definition handlePing :: "jsval \<Rightarrow> response" where
  "handlePing id' =
     \<lparr>resp_body = Some
        (JObj [(lit ''jsonrpc'', JStr (lit ''2.0'')), (lit ''id'', id'), (lit ''result'', JObj [])]),
      resp_status = 200,
      resp_headers = json_headers\<rparr>"

text \<open>The tool descriptor (the same object literal in all three source files).\<close>

definition get_reranking_tool :: jsval where
  "get_reranking_tool =
     JObj [(lit ''name'', JStr (lit ''get_reranking'')),
           (lit ''description'', JStr (lit ''Get the reranked document listing'')),
           (lit ''inputSchema'',
            JObj [(lit ''type'', JStr (lit ''object'')),
                  (lit ''properties'',
                   JObj [(lit ''query'',
                          JObj [(lit ''type'', JStr (lit ''string'')),
                                (lit ''description'', JStr (lit ''The search query'')),
                                (lit ''minLength'', JNum 1),
                                (lit ''maxLength'', JNum 10000)]),
                         (lit ''documents'',
                          JObj [(lit ''type'', JStr (lit ''array'')),
                                (lit ''description'', JStr (lit ''Array of documents to rerank'')),
                                (lit ''items'', JObj [(lit ''type'', JStr (lit ''string''))]),
                                (lit ''minItems'', JNum 1),
                                (lit ''maxItems'', JNum 1000)]),
                         (lit ''api_key'',
                          JObj [(lit ''type'', JStr (lit ''string'')),
                                (lit ''description'', JStr (lit ''API key for authentication'')),
                                (lit ''minLength'', JNum 1)])]),
                  (lit ''required'',
                   JArr [JStr (lit ''query''), JStr (lit ''documents''), JStr (lit ''api_key'')])])]"

definition listTools :: "jsval \<Rightarrow> response" where
  "listTools id' =
     \<lparr>resp_body = Some
        (JObj [(lit ''jsonrpc'', JStr (lit ''2.0'')),
               (lit ''id'', id'),
               (lit ''result'', JObj [(lit ''tools'', JArr [get_reranking_tool])])]),
      resp_status = 200,
      resp_headers = json_headers\<rparr>"

text \<open>The \<open>content\<close> array of a successful \<open>get_reranking\<close> call.\<close>

definition rerank_content :: "platform \<Rightarrow> rerank_response \<Rightarrow> jsval" where
  "rerank_content p response =
     JArr [JObj [(lit ''type'', JStr (lit ''text'')),
                 (lit ''text'', JStr (JSON_stringify p (rerank_response_value response) 2))]]"

text \<open>
  \<open>callTool\<close> is an async function: the requests it issued, and the response its promise
  resolves to, or \<open>Inl\<close> the error it rejects with. Two steps are outside the \<open>try\<close>:
  destructuring \<open>params\<close>, which throws when \<open>params\<close> is \<open>undefined\<close> or \<open>null\<close>,
  and the template literal of the last line, which throws when the name has no string
  conversion.
\<close>

definition callTool :: "platform \<Rightarrow> fetch_fn \<Rightarrow> jsval \<Rightarrow> jsval \<Rightarrow> http_request list \<times> (js_error + response)" where
  "callTool p fetch params id' =
     (if nullish params then ([], Inl (TypeError p (DestructureNullish params)))
      else
        let name = getprop params (lit ''name''); args = getprop params (lit ''arguments'') in
        if name = JStr (lit ''get_reranking'') then
          (case RerankRequestSchema_parse p args of
             Inl error \<Rightarrow>
               ([], Inr (createErrorResponse (error_message error) id' INVALID_PARAMS))
           | Inr validatedArgs \<Rightarrow>
               (case makeRerankRequest p fetch (query validatedArgs) (documents validatedArgs)
                       (api_key validatedArgs) of
                  (sent, Inl error) \<Rightarrow>
                    (sent, Inr (createErrorResponse (error_message error) id' INVALID_PARAMS))
                | (sent, Inr response) \<Rightarrow>
                    (sent,
                     Inr \<lparr>resp_body = Some
                            (JObj [(lit ''jsonrpc'', JStr (lit ''2.0'')),
                                   (lit ''id'', id'),
                                   (lit ''result'',
                                    JObj [(lit ''content'', rerank_content p response)])]),
                          resp_status = 200,
                          resp_headers = json_headers\<rparr>)))
        else
          (case template p name of
             Inl error \<Rightarrow> ([], Inl error)
           | Inr shown \<Rightarrow>
               ([], Inr (createErrorResponse (lit ''Unknown tool: '' @ shown) id'
                           METHOD_NOT_FOUND))))"

text \<open>
  \<open>handleRequest\<close>, from the outcome of \<open>request.json()\<close> on: the new instance state, the
  requests issued, and the response, or \<open>Inl\<close> the error its promise rejects with. The
  \<open>catch\<close> covers what is thrown or awaited inside the \<open>try\<close>; the promise of
  \<open>callTool\<close> is returned without \<open>await\<close>, so its rejection is the rejection of
  \<open>handleRequest\<close>.
\<close>

definition handleRequest :: "platform \<Rightarrow> fetch_fn \<Rightarrow> MCPServer \<Rightarrow> js_error + jsval \<Rightarrow> MCPServer \<times> http_request list \<times> (js_error + response)" where
  "handleRequest p fetch this request_json =
     (case request_json of
        Inl error \<Rightarrow>
          (this, [], Inr (createErrorResponse (error_message error) JNull PARSE_ERROR))
      | Inr body \<Rightarrow>
          (case member p body (lit ''jsonrpc'') of
             Inl error \<Rightarrow>
               (this, [], Inr (createErrorResponse (error_message error) JNull PARSE_ERROR))
           | Inr jsonrpc \<Rightarrow>
               if \<not> truthy jsonrpc \<or> jsonrpc \<noteq> JStr (lit ''2.0'') then
                 (this, [],
                  Inr (createErrorResponse (lit ''Invalid JSON-RPC version'')
                         (getprop body (lit ''id'')) INVALID_REQUEST))
               else
                 let method = getprop body (lit ''method'');
                     params = getprop body (lit ''params'');
                     id' = getprop body (lit ''id'')
                 in
                 if method = JStr (lit ''initialize'') then
                   (case handleInitialize this params id' of
                      (this', response) \<Rightarrow> (this', [], Inr response))
                 else if method = JStr (lit ''initialized'') then
                   (this, [], Inr (handleInitialized params))
                 else if method = JStr (lit ''ping'') then
                   (this, [], Inr (handlePing id'))
                 else if method = JStr (lit ''tools/list'') then
                   (this, [], Inr (listTools id'))
                 else if method = JStr (lit ''tools/call'') then
                   (case callTool p fetch params id' of
                      (sent, outcome) \<Rightarrow> (this, sent, outcome))
                 else
                   (this, [],
                    Inr (createErrorResponse (lit ''Unknown method'') id' METHOD_NOT_FOUND))))"

text \<open>The method \<open>fetch\<close> of the class awaits \<open>handleRequest\<close> and returns its outcome.\<close>

definition MCPServer_fetch :: "platform \<Rightarrow> fetch_fn \<Rightarrow> MCPServer \<Rightarrow> js_error + jsval \<Rightarrow> MCPServer \<times> http_request list \<times> (js_error + response)" where
  "MCPServer_fetch p fetch this request_json = handleRequest p fetch this request_json"

text \<open>
  The worker entry point (the default export's \<open>fetch\<close>) calls the method on the one
  instance, and its \<open>catch\<close> turns a rejection into a response of its own.
\<close>

definition entry_fetch :: "platform \<Rightarrow> fetch_fn \<Rightarrow> MCPServer \<Rightarrow> js_error + jsval \<Rightarrow> MCPServer \<times> http_request list \<times> response" where
  "entry_fetch p fetch this request_json =
     (case MCPServer_fetch p fetch this request_json of
        (this', sent, Inl error) \<Rightarrow>
          (this', sent,
           \<lparr>resp_body = Some
              (JObj [(lit ''error'', JStr (lit ''Worker error: '' @ error_message error))]),
            resp_status = 500,
            resp_headers = json_headers\<rparr>)
      | (this', sent, Inr response) \<Rightarrow> (this', sent, response))"

section \<open>The minimal server\<close>

text \<open>
  The second worker file: no \<open>jsonrpc\<close> check, no \<open>id\<close> in results, no instance
  state, and one error code for every error.
\<close>

definition createErrorResponse_minimal :: "jsstring \<Rightarrow> jsval \<Rightarrow> response" where
  "createErrorResponse_minimal message id' =
     \<lparr>resp_body = Some (error_envelope message id' (- 32603)),
      resp_status = 500,
      resp_headers = json_headers\<rparr>"

definition listTools_minimal :: "response" where
  "listTools_minimal =
     \<lparr>resp_body = Some
        (JObj [(lit ''jsonrpc'', JStr (lit ''2.0'')),
               (lit ''result'', JObj [(lit ''tools'', JArr [get_reranking_tool])])]),
      resp_status = 200,
      resp_headers = json_headers\<rparr>"

definition callTool_minimal :: "platform \<Rightarrow> fetch_fn \<Rightarrow> jsval \<Rightarrow> http_request list \<times> (js_error + response)" where
  "callTool_minimal p fetch params =
     (if nullish params then ([], Inl (TypeError p (DestructureNullish params)))
      else
        let name = getprop params (lit ''name''); args = getprop params (lit ''arguments'') in
        if name = JStr (lit ''get_reranking'') then
          (case RerankRequestSchema_parse p args of
             Inl error \<Rightarrow>
               ([], Inr (createErrorResponse_minimal (error_message error) JUndefined))
           | Inr validatedArgs \<Rightarrow>
               (case makeRerankRequest p fetch (query validatedArgs) (documents validatedArgs)
                       (api_key validatedArgs) of
                  (sent, Inl error) \<Rightarrow>
                    (sent, Inr (createErrorResponse_minimal (error_message error) JUndefined))
                | (sent, Inr response) \<Rightarrow>
                    (sent,
                     Inr \<lparr>resp_body = Some
                            (JObj [(lit ''jsonrpc'', JStr (lit ''2.0'')),
                                   (lit ''result'',
                                    JObj [(lit ''content'', rerank_content p response)])]),
                          resp_status = 200,
                          resp_headers = json_headers\<rparr>)))
        else
          (case template p name of
             Inl error \<Rightarrow> ([], Inl error)
           | Inr shown \<Rightarrow>
               ([], Inr (createErrorResponse_minimal (lit ''Unknown tool: '' @ shown)
                           JUndefined))))"

definition handleRequest_minimal :: "platform \<Rightarrow> fetch_fn \<Rightarrow> js_error + jsval \<Rightarrow> http_request list \<times> (js_error + response)" where
  "handleRequest_minimal p fetch request_json =
     (case request_json of
        Inl error \<Rightarrow> ([], Inr (createErrorResponse_minimal (error_message error) JUndefined))
      | Inr body \<Rightarrow>
          (case member p body (lit ''method'') of
             Inl error \<Rightarrow>
               ([], Inr (createErrorResponse_minimal (error_message error) JUndefined))
           | Inr method \<Rightarrow>
               if method = JStr (lit ''tools/list'') then ([], Inr listTools_minimal)
               else if method = JStr (lit ''tools/call'') then
                 callTool_minimal p fetch (getprop body (lit ''params''))
               else
                 ([], Inr (createErrorResponse_minimal (lit ''Unknown method'')
                             (getprop body (lit ''id''))))))"

section \<open>The stdio server\<close>

text \<open>
  The handler registered for \<open>CallToolRequestSchema\<close>: it returns the tool result
  (an object, which the SDK sends as the \<open>result\<close> of the JSON-RPC response), or throws.
\<close>

definition CallToolRequest_handler :: "platform \<Rightarrow> fetch_fn \<Rightarrow> jsval \<Rightarrow> http_request list \<times> (js_error + jsval)" where
  "CallToolRequest_handler p fetch params =
     (if nullish params then ([], Inl (TypeError p (DestructureNullish params)))
      else
        let name = getprop params (lit ''name''); args = getprop params (lit ''arguments'') in
        if name = JStr (lit ''get_reranking'') then
          (case RerankRequestSchema_parse p args of
             Inl error \<Rightarrow>
               ([],
                Inr (JObj [(lit ''content'',
                            JArr [JObj [(lit ''type'', JStr (lit ''text'')),
                                        (lit ''text'', JStr (lit ''Error: '' @ error_message error))]]),
                           (lit ''isError'', JBool True)]))
           | Inr validatedArgs \<Rightarrow>
               (case makeRerankRequest p fetch (query validatedArgs) (documents validatedArgs)
                       (api_key validatedArgs) of
                  (sent, Inl error) \<Rightarrow>
                    (sent,
                     Inr (JObj [(lit ''content'',
                                 JArr [JObj [(lit ''type'', JStr (lit ''text'')),
                                             (lit ''text'',
                                              JStr (lit ''Error: '' @ error_message error))]]),
                                (lit ''isError'', JBool True)]))
                | (sent, Inr response) \<Rightarrow>
                    (sent, Inr (JObj [(lit ''content'', rerank_content p response)]))))
        else
          (case template p name of
             Inl error \<Rightarrow> ([], Inl error)
           | Inr shown \<Rightarrow> ([], Inl (Error (lit ''Unknown tool: '' @ shown)))))"

section \<open>The two throwing steps of a tool call\<close>

text \<open>
  The parameters for which a step of \<open>callTool\<close> outside its \<open>try\<close> throws:
  \<open>params\<close> is \<open>undefined\<close> or \<open>null\<close>, or the name is not \<open>get_reranking\<close> and
  has no string conversion.
\<close>

definition callTool_throws :: "jsval \<Rightarrow> bool" where
  "callTool_throws params =
     (nullish params \<or>
      (getprop params (lit ''name'') \<noteq> JStr (lit ''get_reranking'') \<and>
       ToString_throws (getprop params (lit ''name''))))"

section \<open>The constraints of the data model\<close>

text \<open>
  The data model's RerankRequest: a query of 1 to 10000 characters, 1 to 1000 documents,
  each non-empty after trimming, and a non-empty API key.
\<close>

definition RerankRequest_constraints :: "jsstring \<Rightarrow> jsstring list \<Rightarrow> jsstring \<Rightarrow> bool" where
  "RerankRequest_constraints q ds k =
     (1 \<le> length q \<and> length q \<le> 10000 \<and> 1 \<le> length ds \<and> length ds \<le> 1000 \<and>
      list_all (\<lambda>d. trim d \<noteq> []) ds \<and> k \<noteq> [])"

text \<open>
  The data model's RerankResult, read off an element of the upstream \<open>results\<close> array:
  an integer \<open>index\<close> in [0, 1000] and a \<open>relevance_score\<close> in [0, 1]. The element
  may carry other fields; \<open>extract_result\<close> is the object of the two fields alone.
\<close>

definition well_formed_result :: "jsval \<Rightarrow> bool" where
  "well_formed_result r =
     (\<exists>i s. getprop r (lit ''index'') = JNum i \<and> i \<in> \<int> \<and> 0 \<le> i \<and> i \<le> 1000 \<and>
            getprop r (lit ''relevance_score'') = JNum s \<and> 0 \<le> s \<and> s \<le> 1)"

definition extract_result :: "jsval \<Rightarrow> jsval" where
  "extract_result r =
     JObj [(lit ''index'', getprop r (lit ''index'')),
           (lit ''relevance_score'', getprop r (lit ''relevance_score''))]"

definition results_object :: "jsval list \<Rightarrow> jsval" where
  "results_object rs = JObj [(lit ''results'', JArr (map extract_result rs))]"

section \<open>A sample environment\<close>

text \<open>
  A platform and upstream services for the worked examples below. The platform
  serialises and parses one value, the response of the example; the texts of its messages
  are fixed strings.
\<close>

definition sample_results :: "jsval list" where
  "sample_results =
     [JObj [(lit ''index'', JNum 1), (lit ''relevance_score'', JNum (4 / 5)),
            (lit ''document'', JStr (lit ''b''))],
      JObj [(lit ''index'', JNum 0), (lit ''relevance_score'', JNum (1 / 10))]]"

definition sample_text :: jsstring where
  "sample_text = lit ''{results:[{index:1,relevance_score:0.8},{index:0,relevance_score:0.1}]}''"

definition sample_platform :: platform where
  "sample_platform =
     \<lparr>JSON_stringify = (\<lambda>v n. if v = results_object sample_results then sample_text else lit ''null''),
      JSON_parse = (\<lambda>s. if s = sample_text then Inr (results_object sample_results)
                         else Inl (JSError (lit ''SyntaxError'') (lit ''Unexpected token''))),
      ToString = (\<lambda>v. lit ''undefined''),
      TypeError_message =
        (\<lambda>f. case f of
               ReadOfNullish v k \<Rightarrow> lit ''Cannot read properties of null (reading '' @ k @ lit '')''
             | DestructureNullish v \<Rightarrow> lit ''Cannot destructure property name of params''
             | NotAFunction v k \<Rightarrow> lit ''result.results.'' @ k @ lit '' is not a function''
             | NotPrimitive v \<Rightarrow> lit ''Cannot convert object to primitive value''),
      ZodError_message = (\<lambda>sch v. lit ''Invalid input'')\<rparr>"

definition sample_args :: jsval where
  "sample_args =
     JObj [(lit ''query'', JStr (lit ''ml'')),
           (lit ''documents'', JArr [JStr (lit ''a''), JStr (lit ''b'')]),
           (lit ''api_key'', JStr (lit ''k''))]"

definition sample_params :: jsval where
  "sample_params = JObj [(lit ''name'', JStr (lit ''get_reranking'')), (lit ''arguments'', sample_args)]"

text \<open>Arguments whose second document is blank, and a \<open>tools/call\<close> request.\<close>

definition blank_document_args :: jsval where
  "blank_document_args =
     JObj [(lit ''query'', JStr (lit ''ml'')),
           (lit ''documents'', JArr [JStr (lit ''a''), JStr (lit ''  '')]),
           (lit ''api_key'', JStr (lit ''k''))]"

definition tools_call :: "jsval \<Rightarrow> jsval \<Rightarrow> jsval" where
  "tools_call id' args =
     JObj [(lit ''jsonrpc'', JStr (lit ''2.0'')),
           (lit ''id'', id'),
           (lit ''method'', JStr (lit ''tools/call'')),
           (lit ''params'', JObj [(lit ''name'', JStr (lit ''get_reranking'')),
                                  (lit ''arguments'', args)])]"

definition sample_request :: http_request where
  "sample_request = rerank_http_request (lit ''ml'') [lit ''a'', lit ''b''] (lit ''k'')"

text \<open>An upstream that answers with the given status and JSON body.\<close>

definition upstream :: "nat \<Rightarrow> jsval \<Rightarrow> fetch_fn" where
  "upstream st v = (\<lambda>request. Inr \<lparr>status = st, json = Inr v\<rparr>)"

text \<open>An upstream that cannot be reached.\<close>

definition unreachable :: fetch_fn where
  "unreachable = (\<lambda>request. Inl (JSError (lit ''TypeError'') (lit ''fetch failed'')))"

section \<open>Strings\<close>

lemma str_includes_prefix: "prefix t s \<Longrightarrow> str_includes s t"
  by (cases s) auto

lemma str_includes_refl: "str_includes s s"
  by (simp add: str_includes_prefix)

lemma str_includes_append: "str_includes s t \<Longrightarrow> str_includes (a @ s) t"
  by (induction a) auto

text \<open>\<open>str_includes s t\<close> holds exactly when \<open>t\<close> occurs in \<open>s\<close> as a contiguous run.\<close>

lemma str_includes_sublist: "str_includes s t \<longleftrightarrow> sublist t s"
proof (induction s)
  case Nil
  then show ?case by auto
next
  case (Cons c s)
  then show ?case by (auto simp: sublist_Cons_right)
qed

lemma dropWhile_all: "(\<forall>x\<in>set (dropWhile P xs). P x) \<longleftrightarrow> (\<forall>x\<in>set xs. P x)"
proof
  assume all: "\<forall>x\<in>set (dropWhile P xs). P x"
  have "dropWhile P xs = []"
  proof (rule ccontr)
    assume ne: "dropWhile P xs \<noteq> []"
    then have "\<not> P (hd (dropWhile P xs))" by (rule hd_dropWhile)
    moreover have "hd (dropWhile P xs) \<in> set (dropWhile P xs)" using ne by simp
    ultimately show False using all by blast
  qed
  then show "\<forall>x\<in>set xs. P x" by simp
next
  assume "\<forall>x\<in>set xs. P x"
  then show "\<forall>x\<in>set (dropWhile P xs). P x" by (meson set_dropWhileD)
qed

text \<open>A string trims to the empty string exactly when it is all white space.\<close>

lemma trim_empty: "trim s = [] \<longleftrightarrow> list_all is_white_space s"
  by (simp add: trim_def list_all_iff dropWhile_all)

lemma error_names: "lit ''Error'' \<noteq> lit ''TypeError''" "lit ''ZodError'' \<noteq> lit ''TypeError''"
  by (simp_all add: lit_def)

section \<open>Reading properties\<close>

lemma getprop_nullish: "nullish v \<Longrightarrow> getprop v k = JUndefined"
  by (auto simp: nullish_def getprop_def)

lemma getprop_defined: "getprop v k \<noteq> JUndefined \<Longrightarrow> \<not> nullish v"
  using getprop_nullish by blast

lemma getprop_JStr: "getprop v k = JStr s \<Longrightarrow> \<not> nullish v"
  by (auto simp: nullish_def getprop_def)

lemma member_defined: "\<not> nullish v \<Longrightarrow> member p v k = Inr (getprop v k)"
  by (simp add: member_def)

section \<open>Request validation\<close>

lemma z_string_Some: "z_string v = Some s \<longleftrightarrow> v = JStr s"
  by (cases v) (auto simp: z_string_def)

lemma those_z_string: "those (map z_string vs) = Some ds \<longleftrightarrow> vs = map JStr ds"
proof (induction vs arbitrary: ds)
  case Nil
  then show ?case by auto
next
  case (Cons v vs)
  then show ?case
    by (cases v) (auto simp: z_string_def split: option.splits)
qed

lemma z_array_z_string_Some: "z_array z_string v = Some ds \<longleftrightarrow> v = JArr (map JStr ds)"
  by (cases v) (auto simp: z_array_def those_z_string)

lemma query_schema_Some:
  "query_schema x = Some q \<longleftrightarrow> x = JStr q \<and> 1 \<le> length q \<and> length q \<le> 10000"
  by (cases x) (auto simp: query_schema_def z_string_def z_min_def z_max_def)

lemma api_key_schema_Some:
  "api_key_schema x = Some k \<longleftrightarrow> x = JStr k \<and> k \<noteq> []"
  by (cases x) (auto simp: api_key_schema_def z_string_def z_min_def Suc_le_eq)

lemma documents_schema_Some:
  "documents_schema x = Some ds \<longleftrightarrow>
     x = JArr (map JStr ds) \<and> 1 \<le> length ds \<and> length ds \<le> 1000 \<and>
     list_all (\<lambda>d. trim d \<noteq> []) ds"
proof (cases "z_array z_string x")
  case None
  then show ?thesis
    using z_array_z_string_Some [of x ds] by (auto simp: documents_schema_def)
next
  case (Some ys)
  then have x: "x = JArr (map JStr ys)" by (simp add: z_array_z_string_Some)
  have "inj JStr" by (simp add: inj_def)
  then have "map JStr ys = map JStr ds \<longleftrightarrow> ys = ds" by simp
  then show ?thesis
    using Some x by (auto simp: documents_schema_def z_min_def z_max_def z_refine_def)
qed

text \<open>
  The request schema accepts exactly the objects whose three fields have the right type
  and meet the constraints of the data model, and returns those fields.
\<close>

lemma RerankRequestSchema_safeParse_Some:
  "RerankRequestSchema_safeParse args = Some v \<longleftrightarrow>
     (\<exists>kvs. args = JObj kvs) \<and>
     getprop args (lit ''query'') = JStr (query v) \<and>
     getprop args (lit ''documents'') = JArr (map JStr (documents v)) \<and>
     getprop args (lit ''api_key'') = JStr (api_key v) \<and>
     RerankRequest_constraints (query v) (documents v) (api_key v)"
proof (cases "\<exists>kvs. args = JObj kvs")
  case False
  then show ?thesis
    by (cases args) (auto simp: RerankRequestSchema_safeParse_def)
next
  case True
  then obtain kvs where obj: "args = JObj kvs" by blast
  obtain q ds k where v: "v = \<lparr>query = q, documents = ds, api_key = k\<rparr>"
    by (cases v) auto
  show ?thesis
    unfolding obj v RerankRequestSchema_safeParse_def RerankRequest_constraints_def
    by (auto simp: bind_eq_Some_conv query_schema_Some api_key_schema_Some
        documents_schema_Some)
qed

lemma RerankRequestSchema_safeParse_None:
  assumes "getprop args (lit ''query'') = JStr q"
    and "getprop args (lit ''documents'') = JArr (map JStr ds)"
    and "getprop args (lit ''api_key'') = JStr k"
  shows "RerankRequestSchema_safeParse args = None \<longleftrightarrow> \<not> RerankRequest_constraints q ds k"
proof -
  obtain kvs where obj: "args = JObj kvs"
    using assms(1) by (cases args) (auto simp: getprop_def)
  have inj: "inj JStr" by (simp add: inj_def)
  show ?thesis
  proof
    assume none: "RerankRequestSchema_safeParse args = None"
    show "\<not> RerankRequest_constraints q ds k"
    proof
      assume "RerankRequest_constraints q ds k"
      then have "RerankRequestSchema_safeParse args = Some \<lparr>query = q, documents = ds, api_key = k\<rparr>"
        using assms obj by (simp add: RerankRequestSchema_safeParse_Some)
      with none show False by simp
    qed
  next
    assume bad: "\<not> RerankRequest_constraints q ds k"
    show "RerankRequestSchema_safeParse args = None"
    proof (cases "RerankRequestSchema_safeParse args")
      case None
      then show ?thesis .
    next
      case (Some v)
      then have "query v = q" "map JStr (documents v) = map JStr ds" "api_key v = k"
        and ok: "RerankRequest_constraints (query v) (documents v) (api_key v)"
        using assms by (auto simp: RerankRequestSchema_safeParse_Some)
      moreover have "documents v = ds"
        using \<open>map JStr (documents v) = map JStr ds\<close> inj by simp
      ultimately show ?thesis using bad by simp
    qed
  qed
qed

section \<open>The dispatch of a tool call\<close>

text \<open>What \<open>callTool\<close> does for \<open>get_reranking\<close>, by the outcome of validation.\<close>

lemma callTool_invalid:
  assumes "getprop params (lit ''name'') = JStr (lit ''get_reranking'')"
    and "RerankRequestSchema_safeParse (getprop params (lit ''arguments'')) = None"
  shows "callTool p fetch params id' =
           ([], Inr (createErrorResponse
                       (ZodError_message p RerankRequestSchema (getprop params (lit ''arguments'')))
                       id' INVALID_PARAMS))"
proof -
  have "\<not> nullish params" using assms(1) by (rule getprop_JStr)
  then show ?thesis
    using assms by (simp add: callTool_def RerankRequestSchema_parse_def ZodError_def)
qed

lemma callTool_valid:
  assumes "getprop params (lit ''name'') = JStr (lit ''get_reranking'')"
    and "RerankRequestSchema_safeParse (getprop params (lit ''arguments'')) = Some v"
  shows "callTool p fetch params id' =
           (case makeRerankRequest p fetch (query v) (documents v) (api_key v) of
              (sent, Inl error) \<Rightarrow>
                (sent, Inr (createErrorResponse (error_message error) id' INVALID_PARAMS))
            | (sent, Inr response) \<Rightarrow>
                (sent,
                 Inr \<lparr>resp_body = Some (JObj [(lit ''jsonrpc'', JStr (lit ''2.0'')),
                                              (lit ''id'', id'),
                                              (lit ''result'',
                                               JObj [(lit ''content'', rerank_content p response)])]),
                      resp_status = 200,
                      resp_headers = json_headers\<rparr>))"
proof -
  have "\<not> nullish params" using assms(1) by (rule getprop_JStr)
  then show ?thesis
    using assms by (simp add: callTool_def RerankRequestSchema_parse_def)
qed

lemma handleRequest_tools_call:
  assumes "getprop body (lit ''jsonrpc'') = JStr (lit ''2.0'')"
    and "getprop body (lit ''method'') = JStr (lit ''tools/call'')"
  shows "handleRequest p fetch this (Inr body) =
           (this, callTool p fetch (getprop body (lit ''params'')) (getprop body (lit ''id'')))"
proof -
  have nn: "\<not> nullish body" using assms(1) by (rule getprop_JStr)
  have ne: "lit ''tools/call'' \<noteq> lit ''initialize''" "lit ''tools/call'' \<noteq> lit ''initialized''"
    "lit ''tools/call'' \<noteq> lit ''ping''" "lit ''tools/call'' \<noteq> lit ''tools/list''"
    "lit ''2.0'' \<noteq> []"
    by (simp_all add: lit_def)
  show ?thesis
    using assms nn ne
    by (simp add: handleRequest_def member_defined Let_def split: prod.splits)
qed

section \<open>Input validation comes before the outbound call\<close>

text \<open>
  C1. A \<open>tools/call\<close> of \<open>get_reranking\<close> whose arguments violate the constraints of
  RerankRequest (query length outside [1, 10000], number of documents outside [1, 1000], a
  document that is empty after trimming, or an empty API key) is answered by the
  protocol-conformant server with an error of code -32602 (invalid params), and no request
  is sent upstream: so for \<open>callTool\<close>, and so for \<open>handleRequest\<close> on the whole
  request.
\<close>

theorem invalid_arguments_rejected_before_fetch:
  assumes "getprop params (lit ''name'') = JStr (lit ''get_reranking'')"
    and "getprop params (lit ''arguments'') = args"
    and "getprop args (lit ''query'') = JStr q"
    and "getprop args (lit ''documents'') = JArr (map JStr ds)"
    and "getprop args (lit ''api_key'') = JStr k"
    and "length q < 1 \<or> 10000 < length q \<or> length ds < 1 \<or> 1000 < length ds \<or>
         list_ex (\<lambda>d. trim d = []) ds \<or> k = []"
    and "getprop body (lit ''jsonrpc'') = JStr (lit ''2.0'')"
    and "getprop body (lit ''method'') = JStr (lit ''tools/call'')"
    and "getprop body (lit ''params'') = params"
  shows "callTool p fetch params id' =
           ([], Inr (createErrorResponse (ZodError_message p RerankRequestSchema args) id'
                       (- 32602))) \<and>
         handleRequest p fetch this (Inr body) =
           (this, [],
            Inr (createErrorResponse (ZodError_message p RerankRequestSchema args)
                   (getprop body (lit ''id'')) (- 32602)))"
proof -
  have "\<not> RerankRequest_constraints q ds k"
    using assms(6) by (auto simp: RerankRequest_constraints_def list_all_iff list_ex_iff)
  then have none: "RerankRequestSchema_safeParse (getprop params (lit ''arguments'')) = None"
    using assms(2-5) RerankRequestSchema_safeParse_None by blast
  have call: "callTool p fetch params i =
           ([], Inr (createErrorResponse (ZodError_message p RerankRequestSchema args) i
                       (- 32602)))" for i
    using callTool_invalid [OF assms(1) none] assms(2) by (simp add: INVALID_PARAMS_def)
  show ?thesis
    using call handleRequest_tools_call [OF assms(7,8)] assms(9) by simp
qed

theorem invalid_arguments_rejected_before_fetch_witness:
  "getprop (tools_call (JNum 7) blank_document_args) (lit ''method'') = JStr (lit ''tools/call'') \<and>
   getprop blank_document_args (lit ''documents'') = JArr (map JStr [lit ''a'', lit ''  '']) \<and>
   list_ex (\<lambda>d. trim d = []) [lit ''a'', lit ''  ''] \<and>
   handleRequest sample_platform unreachable constructor
       (Inr (tools_call (JNum 7) blank_document_args)) =
     (constructor, [], Inr (createErrorResponse (lit ''Invalid input'') (JNum 7) (- 32602)))"
proof -
  let ?params = "JObj [(lit ''name'', JStr (lit ''get_reranking'')),
                       (lit ''arguments'', blank_document_args)]"
  let ?body = "tools_call (JNum 7) blank_document_args"
  have h1: "getprop ?params (lit ''name'') = JStr (lit ''get_reranking'')"
    by (simp add: getprop_def lit_def)
  have h2: "getprop ?params (lit ''arguments'') = blank_document_args"
    by (simp add: getprop_def lit_def)
  have h3: "getprop blank_document_args (lit ''query'') = JStr (lit ''ml'')"
    by (simp add: blank_document_args_def getprop_def lit_def)
  have h4: "getprop blank_document_args (lit ''documents'') = JArr (map JStr [lit ''a'', lit ''  ''])"
    by (simp add: blank_document_args_def getprop_def lit_def)
  have h5: "getprop blank_document_args (lit ''api_key'') = JStr (lit ''k'')"
    by (simp add: blank_document_args_def getprop_def lit_def)
  have ex: "list_ex (\<lambda>d. trim d = []) [lit ''a'', lit ''  '']"
    by (simp add: trim_def lit_def is_white_space_def)
  then have h6: "length (lit ''ml'') < 1 \<or> 10000 < length (lit ''ml'') \<or>
      length [lit ''a'', lit ''  ''] < 1 \<or> 1000 < length [lit ''a'', lit ''  ''] \<or>
      list_ex (\<lambda>d. trim d = []) [lit ''a'', lit ''  ''] \<or> lit ''k'' = []"
    by blast
  have h7: "getprop ?body (lit ''jsonrpc'') = JStr (lit ''2.0'')"
    by (simp add: tools_call_def getprop_def lit_def)
  have h8: "getprop ?body (lit ''method'') = JStr (lit ''tools/call'')"
    by (simp add: tools_call_def getprop_def lit_def)
  have h9: "getprop ?body (lit ''params'') = ?params"
    by (simp add: tools_call_def getprop_def lit_def)
  have h10: "getprop ?body (lit ''id'') = JNum 7"
    by (simp add: tools_call_def getprop_def lit_def)
  have msg: "ZodError_message sample_platform RerankRequestSchema blank_document_args =
      lit ''Invalid input''"
    by (simp add: sample_platform_def)
  show ?thesis
    using invalid_arguments_rejected_before_fetch
      [OF h1 h2 h3 h4 h5 h6 h7 h8 h9, of sample_platform unreachable "JNum 7" constructor]
      h4 h8 ex
    unfolding msg h10 by blast
qed

section \<open>The request sent upstream\<close>

lemma makeRerankRequest_sent:
  "fst (makeRerankRequest p fetch q ds k) = [rerank_http_request q ds k]"
  by (simp add: makeRerankRequest_def Let_def)

text \<open>
  C3. For every validated invocation, exactly one request is sent upstream: a POST to
  the fixed endpoint whose body is the object of the two fields \<open>query\<close> and
  \<open>documents\<close>, with the values of the arguments, and whose \<open>Authorization\<close> header is
  \<open>Bearer\<close> followed by the \<open>api_key\<close> argument. The API key is in no other part of
  the request: the URL, the method and the body are the same for every key. So in the
  protocol-conformant server, the minimal server and the stdio handler.
\<close>

theorem upstream_request_shape:
  assumes "getprop params (lit ''name'') = JStr (lit ''get_reranking'')"
    and "getprop params (lit ''arguments'') = args"
    and "RerankRequestSchema_safeParse args = Some v"
  shows "fst (callTool p fetch params id') =
           [\<lparr>req_url = ZERANK_API_BASE,
             req_method = lit ''POST'',
             req_headers = [(lit ''Authorization'', lit ''Bearer '' @ api_key v),
                            (lit ''Content-Type'', lit ''application/json'')],
             req_body = JObj [(lit ''query'', getprop args (lit ''query'')),
                              (lit ''documents'', getprop args (lit ''documents''))]\<rparr>] \<and>
         fst (callTool_minimal p fetch params) = fst (callTool p fetch params id') \<and>
         fst (CallToolRequest_handler p fetch params) = fst (callTool p fetch params id') \<and>
         getprop args (lit ''api_key'') = JStr (api_key v) \<and>
         req_url (rerank_http_request q ds k) = req_url (rerank_http_request q ds k') \<and>
         req_method (rerank_http_request q ds k) = req_method (rerank_http_request q ds k') \<and>
         req_body (rerank_http_request q ds k) = req_body (rerank_http_request q ds k')"
proof -
  have nn: "\<not> nullish params" using assms(1) by (rule getprop_JStr)
  have fields: "getprop args (lit ''query'') = JStr (query v)"
    "getprop args (lit ''documents'') = JArr (map JStr (documents v))"
    "getprop args (lit ''api_key'') = JStr (api_key v)"
    using assms(3) by (simp_all add: RerankRequestSchema_safeParse_Some)
  have sent: "fst (makeRerankRequest p fetch (query v) (documents v) (api_key v)) =
      [rerank_http_request (query v) (documents v) (api_key v)]"
    by (rule makeRerankRequest_sent)
  have a: "fst (callTool p fetch params id') = [rerank_http_request (query v) (documents v) (api_key v)]"
    using nn assms sent
    by (auto simp: callTool_def RerankRequestSchema_parse_def split: prod.splits sum.splits)
  have b: "fst (callTool_minimal p fetch params) = [rerank_http_request (query v) (documents v) (api_key v)]"
    using nn assms sent
    by (auto simp: callTool_minimal_def RerankRequestSchema_parse_def
        split: prod.splits sum.splits)
  have c: "fst (CallToolRequest_handler p fetch params) = [rerank_http_request (query v) (documents v) (api_key v)]"
    using nn assms sent
    by (auto simp: CallToolRequest_handler_def RerankRequestSchema_parse_def
        split: prod.splits sum.splits)
  show ?thesis
    using a b c fields by (simp add: rerank_http_request_def)
qed

theorem upstream_request_shape_witness:
  "getprop sample_params (lit ''name'') = JStr (lit ''get_reranking'') \<and>
   getprop sample_params (lit ''arguments'') = sample_args \<and>
   RerankRequestSchema_safeParse sample_args =
     Some \<lparr>query = lit ''ml'', documents = [lit ''a'', lit ''b''], api_key = lit ''k''\<rparr> \<and>
   fst (callTool sample_platform unreachable sample_params (JNum 7)) =
     [\<lparr>req_url = ZERANK_API_BASE,
       req_method = lit ''POST'',
       req_headers = [(lit ''Authorization'', lit ''Bearer k''),
                      (lit ''Content-Type'', lit ''application/json'')],
       req_body = JObj [(lit ''query'', JStr (lit ''ml'')),
                        (lit ''documents'', JArr [JStr (lit ''a''), JStr (lit ''b'')])]\<rparr>]"
proof -
  have h1: "getprop sample_params (lit ''name'') = JStr (lit ''get_reranking'')"
    by (simp add: sample_params_def getprop_def lit_def)
  have h2: "getprop sample_params (lit ''arguments'') = sample_args"
    by (simp add: sample_params_def getprop_def lit_def)
  have q: "getprop sample_args (lit ''query'') = JStr (lit ''ml'')"
    and d: "getprop sample_args (lit ''documents'') = JArr [JStr (lit ''a''), JStr (lit ''b'')]"
    and k: "getprop sample_args (lit ''api_key'') = JStr (lit ''k'')"
    by (simp_all add: sample_args_def getprop_def lit_def)
  have c: "RerankRequest_constraints (lit ''ml'') [lit ''a'', lit ''b''] (lit ''k'')"
    by (simp add: RerankRequest_constraints_def trim_def lit_def is_white_space_def)
  have h3: "RerankRequestSchema_safeParse sample_args =
      Some \<lparr>query = lit ''ml'', documents = [lit ''a'', lit ''b''], api_key = lit ''k''\<rparr>"
    using q d k c by (simp add: RerankRequestSchema_safeParse_Some sample_args_def)
  have bearer: "lit ''Bearer '' @ lit ''k'' = lit ''Bearer k''"
    by (simp add: lit_def)
  show ?thesis
    using upstream_request_shape [OF h1 h2 h3, of sample_platform unreachable "JNum 7"] h1 h2 h3
    by (simp add: q d bearer)
qed

section \<open>Upstream statuses\<close>

text \<open>\<open>decimal n\<close> is the decimal numeral of \<open>n\<close>: digits that read back as \<open>n\<close>.\<close>

lemma unat_digit: "unat (of_nat (48 + n mod 10) :: code_unit) = 48 + n mod 10"
proof -
  have "unat (of_nat m :: code_unit) = m" if "m < 65536" for m
    using that by (simp add: unat_of_nat)
  moreover have "48 + n mod 10 < 65536" by simp
  ultimately show ?thesis by blast
qed

lemma decimal_digits: "list_all (\<lambda>c. 48 \<le> unat c \<and> unat c \<le> 57) (decimal n)"
proof (induction n rule: decimal.induct)
  case (1 n)
  note d = unat_digit [of n]
  show ?case
  proof (cases "n < 10")
    case True
    then show ?thesis using d by (simp add: decimal.simps [of n])
  next
    case False
    then show ?thesis using 1 d by (simp add: decimal.simps [of n])
  qed
qed

lemma decimal_value: "foldl (\<lambda>acc c. 10 * acc + (unat c - 48)) 0 (decimal n) = n"
proof (induction n rule: decimal.induct)
  case (1 n)
  note d = unat_digit [of n]
  show ?case
  proof (cases "n < 10")
    case True
    then show ?thesis using d by (simp add: decimal.simps [of n])
  next
    case False
    then show ?thesis using 1 d by (simp add: decimal.simps [of n])
  qed
qed

lemma makeRerankRequest_catch_Error: "makeRerankRequest_catch (Error m) = Error m"
  by (simp add: makeRerankRequest_catch_def Error_def error_names)

lemma makeRerankRequest_catch_ZodError:
  "makeRerankRequest_catch (ZodError p sch v) = ZodError p sch v"
  by (simp add: makeRerankRequest_catch_def ZodError_def error_names)

text \<open>
  C4. When the upstream answers with a status outside 200 to 299, the rerank client
  fails with an \<open>Error\<close> whose message the status determines: \<open>Invalid API key\<close> for 401,
  \<open>Rate limit exceeded\<close> for 429, and otherwise \<open>API error: \<close> followed by the decimal
  numeral of the status, which the message therefore contains. The client has sent exactly
  one request: nothing is retried.
\<close>

theorem upstream_status_errors:
  assumes "fetch (rerank_http_request q ds k) = Inr response"
    and "\<not> ok response"
  shows "\<exists>m. makeRerankRequest p fetch q ds k = ([rerank_http_request q ds k], Inl (Error m)) \<and>
             (status response = 401 \<longrightarrow>
                m = lit ''Invalid API key'' \<and> str_includes m (lit ''Invalid API key'')) \<and>
             (status response = 429 \<longrightarrow>
                m = lit ''Rate limit exceeded'' \<and> str_includes m (lit ''Rate limit exceeded'')) \<and>
             (status response \<noteq> 401 \<and> status response \<noteq> 429 \<longrightarrow>
                m = lit ''API error: '' @ decimal (status response) \<and>
                str_includes m (decimal (status response)))"
proof -
  have inc: "str_includes (lit ''API error: '' @ decimal (status response)) (decimal (status response))"
    by (rule str_includes_append) (rule str_includes_refl)
  show ?thesis
    using assms inc
    by (simp add: makeRerankRequest_def makeRerankRequest_try_def makeRerankRequest_catch_Error
        Let_def str_includes_refl)
qed

theorem upstream_status_errors_witness:
  "upstream 500 JNull sample_request = Inr \<lparr>status = 500, json = Inr JNull\<rparr> \<and>
   \<not> ok \<lparr>status = 500, json = Inr JNull\<rparr> \<and>
   makeRerankRequest sample_platform (upstream 500 JNull) (lit ''ml'') [lit ''a'', lit ''b''] (lit ''k'')
     = ([sample_request], Inl (Error (lit ''API error: 500'')))"
proof -
  have h1: "upstream 500 JNull (rerank_http_request (lit ''ml'') [lit ''a'', lit ''b''] (lit ''k''))
      = Inr \<lparr>status = 500, json = Inr JNull\<rparr>"
    by (simp add: upstream_def)
  have h2: "\<not> ok \<lparr>status = 500, json = Inr JNull\<rparr>"
    by (simp add: ok_def)
  have m: "lit ''API error: '' @ decimal 500 = lit ''API error: 500''"
    by (simp add: decimal.simps lit_def)
  show ?thesis
    using upstream_status_errors
      [where fetch = "upstream 500 JNull" and q = "lit ''ml''" and ds = "[lit ''a'', lit ''b'']"
         and k = "lit ''k''" and p = sample_platform, OF h1 h2] h1 h2
    by (simp add: sample_request_def m)
qed

section \<open>Failures of a rerank call in the protocol-conformant server\<close>

text \<open>
  C10. In the protocol-conformant server, a \<open>tools/call\<close> of \<open>get_reranking\<close>
  answers every failure with the one code -32602 and the HTTP status 500: a failure of
  input validation, and any error \<open>e\<close> the rerank client throws, whatever its kind (a
  401, a 429 or another status outside 200 to 299, a schema violation of the upstream
  response, or a transport error, for which \<open>fetch\<close> itself rejects).
\<close>

theorem get_reranking_failures_are_invalid_params:
  assumes "getprop params (lit ''name'') = JStr (lit ''get_reranking'')"
    and "getprop params (lit ''arguments'') = args"
  shows "(RerankRequestSchema_safeParse args = None \<longrightarrow>
            callTool p fetch params id' =
              ([], Inr (createErrorResponse (ZodError_message p RerankRequestSchema args) id'
                          (- 32602)))) \<and>
         (RerankRequestSchema_safeParse args = Some v \<and>
          makeRerankRequest p fetch (query v) (documents v) (api_key v) = (sent, Inl e) \<longrightarrow>
            callTool p fetch params id' =
              (sent, Inr (createErrorResponse (error_message e) id' (- 32602)))) \<and>
         (RerankRequestSchema_safeParse args = Some v \<and>
          fetch (rerank_http_request (query v) (documents v) (api_key v)) = Inl e0 \<longrightarrow>
            callTool p fetch params id' =
              ([rerank_http_request (query v) (documents v) (api_key v)],
               Inr (createErrorResponse (error_message (makeRerankRequest_catch e0)) id'
                      (- 32602)))) \<and>
         createErrorResponse m id' (- 32602) =
           \<lparr>resp_body = Some
              (JObj [(lit ''jsonrpc'', JStr (lit ''2.0'')),
                     (lit ''error'', JObj [(lit ''code'', JNum (- 32602)),
                                           (lit ''message'', JStr m)]),
                     (lit ''id'', if id' = JUndefined then JNull else id')]),
            resp_status = 500,
            resp_headers = json_headers\<rparr>"
proof -
  have a: "RerankRequestSchema_safeParse args = None \<Longrightarrow>
      callTool p fetch params id' =
        ([], Inr (createErrorResponse (ZodError_message p RerankRequestSchema args) id' (- 32602)))"
    using callTool_invalid [OF assms(1), of p fetch id'] assms(2)
    by (simp add: INVALID_PARAMS_def)
  have b: "callTool p fetch params id' =
        (sent', Inr (createErrorResponse (error_message e') id' (- 32602)))"
    if "RerankRequestSchema_safeParse args = Some v"
      and "makeRerankRequest p fetch (query v) (documents v) (api_key v) = (sent', Inl e')"
    for sent' e'
    using callTool_valid [OF assms(1), of v p fetch id'] assms(2) that
    by (simp add: INVALID_PARAMS_def)
  have c: "makeRerankRequest p fetch (query v) (documents v) (api_key v) =
        ([rerank_http_request (query v) (documents v) (api_key v)],
         Inl (makeRerankRequest_catch e0))"
    if "fetch (rerank_http_request (query v) (documents v) (api_key v)) = Inl e0"
    using that by (simp add: makeRerankRequest_def makeRerankRequest_try_def Let_def)
  show ?thesis
    using a b c by (simp add: createErrorResponse_def error_envelope_def)
qed

theorem get_reranking_failures_are_invalid_params_witness:
  "getprop sample_params (lit ''name'') = JStr (lit ''get_reranking'') \<and>
   getprop sample_params (lit ''arguments'') = sample_args \<and>
   RerankRequestSchema_safeParse sample_args =
     Some \<lparr>query = lit ''ml'', documents = [lit ''a'', lit ''b''], api_key = lit ''k''\<rparr> \<and>
   unreachable sample_request = Inl (JSError (lit ''TypeError'') (lit ''fetch failed'')) \<and>
   callTool sample_platform unreachable sample_params (JNum 7) =
     ([sample_request],
      Inr (createErrorResponse (lit ''Request error: fetch failed'') (JNum 7) (- 32602)))"
proof -
  let ?v = "\<lparr>query = lit ''ml'', documents = [lit ''a'', lit ''b''], api_key = lit ''k''\<rparr>"
  have h1: "getprop sample_params (lit ''name'') = JStr (lit ''get_reranking'')"
    by (simp add: sample_params_def getprop_def lit_def)
  have h2: "getprop sample_params (lit ''arguments'') = sample_args"
    by (simp add: sample_params_def getprop_def lit_def)
  have h3: "RerankRequestSchema_safeParse sample_args = Some ?v"
    by (simp add: RerankRequestSchema_safeParse_Some RerankRequest_constraints_def sample_args_def
        getprop_def trim_def lit_def is_white_space_def)
  have h4: "unreachable (rerank_http_request (query ?v) (documents ?v) (api_key ?v)) =
      Inl (JSError (lit ''TypeError'') (lit ''fetch failed''))"
    by (simp add: unreachable_def)
  have inc: "str_includes (lit ''fetch failed'') (lit ''fetch'')"
    by (simp add: lit_def)
  have m: "error_message (makeRerankRequest_catch (JSError (lit ''TypeError'') (lit ''fetch failed'')))
      = lit ''Request error: fetch failed''"
    using inc by (simp add: makeRerankRequest_catch_def Error_def) (simp add: lit_def)
  show ?thesis
    using get_reranking_failures_are_invalid_params
      [OF h1 h2, where v = ?v and fetch = unreachable and p = sample_platform
         and ?e0.0 = "JSError (lit ''TypeError'') (lit ''fetch failed'')" and id' = "JNum 7"]
      h1 h2 h3 h4
    by (simp add: m sample_request_def unreachable_def)
qed

section \<open>The session flag\<close>

text \<open>
  C9. Handling an \<open>initialize\<close> request sets the flag \<open>initialized\<close>, and the flag is
  never read: for every request, the requests sent upstream and the response (or the error
  thrown) are the same from any two instance states.
\<close>

theorem initialized_written_never_read:
  "initialized (fst (handleInitialize this params id')) \<and>
   (getprop body (lit ''jsonrpc'') = JStr (lit ''2.0'') \<and>
    getprop body (lit ''method'') = JStr (lit ''initialize'') \<longrightarrow>
      initialized (fst (handleRequest p fetch this (Inr body)))) \<and>
   snd (handleRequest p fetch this request) = snd (handleRequest p fetch this' request)"
proof -
  have a: "initialized (fst (handleInitialize this params id'))"
    by (simp add: handleInitialize_def)
  have b: "initialized (fst (handleRequest p fetch this (Inr body)))"
    if "getprop body (lit ''jsonrpc'') = JStr (lit ''2.0'')"
      and "getprop body (lit ''method'') = JStr (lit ''initialize'')"
  proof -
    have "\<not> nullish body" using that(1) by (rule getprop_JStr)
    moreover have "lit ''2.0'' \<noteq> []" by (simp add: lit_def)
    ultimately show ?thesis
      using that by (simp add: handleRequest_def member_defined handleInitialize_def Let_def)
  qed
  have c: "snd (handleRequest p fetch this request) = snd (handleRequest p fetch this' request)"
    by (simp add: handleRequest_def handleInitialize_def Let_def
        split: sum.splits prod.splits)
  show ?thesis using a b c by blast
qed

theorem initialized_written_never_read_witness:
  "getprop (JObj [(lit ''jsonrpc'', JStr (lit ''2.0'')), (lit ''id'', JNum 1),
                  (lit ''method'', JStr (lit ''initialize''))]) (lit ''jsonrpc'')
     = JStr (lit ''2.0'') \<and>
   getprop (JObj [(lit ''jsonrpc'', JStr (lit ''2.0'')), (lit ''id'', JNum 1),
                  (lit ''method'', JStr (lit ''initialize''))]) (lit ''method'')
     = JStr (lit ''initialize'') \<and>
   \<not> initialized constructor \<and>
   initialized (fst (handleRequest sample_platform unreachable constructor
     (Inr (JObj [(lit ''jsonrpc'', JStr (lit ''2.0'')), (lit ''id'', JNum 1),
                 (lit ''method'', JStr (lit ''initialize''))])))) \<and>
   snd (handleRequest sample_platform unreachable constructor
          (Inr (JObj [(lit ''jsonrpc'', JStr (lit ''2.0'')), (lit ''id'', JNum 1),
                      (lit ''method'', JStr (lit ''initialize''))]))) =
   snd (handleRequest sample_platform unreachable (constructor\<lparr>initialized := True\<rparr>)
          (Inr (JObj [(lit ''jsonrpc'', JStr (lit ''2.0'')), (lit ''id'', JNum 1),
                      (lit ''method'', JStr (lit ''initialize''))])))"
proof -
  let ?body = "JObj [(lit ''jsonrpc'', JStr (lit ''2.0'')), (lit ''id'', JNum 1),
                     (lit ''method'', JStr (lit ''initialize''))]"
  have h1: "getprop ?body (lit ''jsonrpc'') = JStr (lit ''2.0'')"
    by (simp add: getprop_def lit_def)
  have h2: "getprop ?body (lit ''method'') = JStr (lit ''initialize'')"
    by (simp add: getprop_def lit_def)
  have h3: "\<not> initialized constructor"
    by (simp add: constructor_def)
  show ?thesis
    using initialized_written_never_read
      [where body = ?body and p = sample_platform and fetch = unreachable
         and this = constructor and this' = "constructor\<lparr>initialized := True\<rparr>"
         and request = "Inr ?body"]
      h1 h2 h3
    by blast
qed

section \<open>The JSON-RPC version check\<close>

text \<open>
  For a body other than \<open>null\<close> whose \<open>jsonrpc\<close> field is missing or is not the string
  \<open>2.0\<close>, the protocol-conformant server answers with the error of code -32600,
  whatever the method and the parameters are: the instance state is unchanged and nothing
  is sent upstream.
\<close>

lemma jsonrpc_version_checked_before_dispatch:
  assumes "\<not> nullish body"
    and "getprop body (lit ''jsonrpc'') \<noteq> JStr (lit ''2.0'')"
  shows "handleRequest p fetch this (Inr body) =
           (this, [],
            Inr (createErrorResponse (lit ''Invalid JSON-RPC version'')
                   (getprop body (lit ''id'')) (- 32600)))"
  using assms by (simp add: handleRequest_def member_defined INVALID_REQUEST_def)

text \<open>
  C8. A request whose \<open>jsonrpc\<close> field is missing is to be answered with the error of
  code -32600. The code does not do so for a request whose body is the JSON value
  \<open>null\<close>: the body has no \<open>jsonrpc\<close> field, reading \<open>body.jsonrpc\<close> throws inside
  the \<open>try\<close>, before the check is decided, and the \<open>catch\<close> answers with code -32700
  and the message of the \<open>TypeError\<close>.
\<close>

theorem null_body_is_parse_error:
  "getprop JNull (lit ''jsonrpc'') = JUndefined \<and>
   handleRequest sample_platform unreachable constructor (Inr JNull) =
     (constructor, [],
      Inr (createErrorResponse (lit ''Cannot read properties of null (reading jsonrpc)'') JNull
             (- 32700)))"
  by (simp add: handleRequest_def member_def nullish_def TypeError_def sample_platform_def
      PARSE_ERROR_def getprop_def) (simp add: lit_def)

theorem null_body_is_parse_error_witness:
  "map_option (\<lambda>r. map_option (\<lambda>b. getprop (getprop b (lit ''error'')) (lit ''code'')) (resp_body r))
     (case snd (snd (handleRequest sample_platform unreachable constructor (Inr JNull))) of
        Inl e \<Rightarrow> None
      | Inr r \<Rightarrow> Some r) =
   Some (Some (JNum (- 32700)))"
proof -
  have "lit ''error'' \<noteq> lit ''jsonrpc''" "lit ''code'' \<noteq> lit ''message''"
    by (simp_all add: lit_def)
  then show ?thesis
    using null_body_is_parse_error
    by (simp add: createErrorResponse_def error_envelope_def getprop_def)
qed

section \<open>Unknown tools\<close>

lemma template_JStr: "template p (JStr s) = Inr s"
  by (simp add: template_def)

text \<open>The template literal throws exactly for the values that have no string conversion.\<close>

lemma template_Inl:
  "template p v = Inl e \<longleftrightarrow> ToString_throws v \<and> e = TypeError p (NotPrimitive v)"
  by (cases v) (auto simp: template_def)

lemma template_Inr: "(\<exists>s. template p v = Inr s) \<longleftrightarrow> \<not> ToString_throws v"
  by (cases v) (auto simp: template_def)

text \<open>
  C7, counterexample. For the tool name \<open>rank\<close> the minimal server answers with code
  -32603, not with -32601, and the stdio handler throws. In the protocol-conformant server
  too \<open>callTool\<close> throws, without a response, for a \<open>tools/call\<close> with no \<open>params\<close>
  and for one whose name is the object \<open>{toString: 1}\<close>, which has no string
  conversion.
\<close>

theorem unknown_tool_not_method_not_found:
  "callTool_minimal sample_platform unreachable (JObj [(lit ''name'', JStr (lit ''rank''))]) =
     ([], Inr \<lparr>resp_body = Some
                 (JObj [(lit ''jsonrpc'', JStr (lit ''2.0'')),
                        (lit ''error'', JObj [(lit ''code'', JNum (- 32603)),
                                              (lit ''message'', JStr (lit ''Unknown tool: rank''))]),
                        (lit ''id'', JNull)]),
               resp_status = 500,
               resp_headers = json_headers\<rparr>) \<and>
   CallToolRequest_handler sample_platform unreachable (JObj [(lit ''name'', JStr (lit ''rank''))]) =
     ([], Inl (Error (lit ''Unknown tool: rank''))) \<and>
   callTool sample_platform unreachable JUndefined (JNum 1) =
     ([], Inl (JSError (lit ''TypeError'') (lit ''Cannot destructure property name of params''))) \<and>
   callTool sample_platform unreachable
       (JObj [(lit ''name'', JObj [(lit ''toString'', JNum 1)])]) (JNum 1) =
     ([], Inl (JSError (lit ''TypeError'') (lit ''Cannot convert object to primitive value'')))"
proof -
  have n: "getprop (JObj [(lit ''name'', JStr (lit ''rank''))]) (lit ''name'') = JStr (lit ''rank'')"
    by (simp add: getprop_def)
  have ne: "lit ''rank'' \<noteq> lit ''get_reranking''"
    by (simp add: lit_def)
  have m: "lit ''Unknown tool: '' @ lit ''rank'' = lit ''Unknown tool: rank''"
    by (simp add: lit_def)
  have a: "callTool_minimal sample_platform unreachable (JObj [(lit ''name'', JStr (lit ''rank''))]) =
     ([], Inr (createErrorResponse_minimal (lit ''Unknown tool: rank'') JUndefined))"
    using ne by (simp add: callTool_minimal_def nullish_def n template_JStr m Let_def)
  have b: "CallToolRequest_handler sample_platform unreachable (JObj [(lit ''name'', JStr (lit ''rank''))]) =
     ([], Inl (Error (lit ''Unknown tool: rank'')))"
    using ne by (simp add: CallToolRequest_handler_def nullish_def n template_JStr m Let_def)
  have c: "callTool sample_platform unreachable JUndefined (JNum 1) =
     ([], Inl (JSError (lit ''TypeError'') (lit ''Cannot destructure property name of params'')))"
    by (simp add: callTool_def nullish_def TypeError_def sample_platform_def)
  have o: "getprop (JObj [(lit ''name'', JObj [(lit ''toString'', JNum 1)])]) (lit ''name'') =
      JObj [(lit ''toString'', JNum 1)]"
    by (simp add: getprop_def)
  have d: "callTool sample_platform unreachable
       (JObj [(lit ''name'', JObj [(lit ''toString'', JNum 1)])]) (JNum 1) =
     ([], Inl (JSError (lit ''TypeError'') (lit ''Cannot convert object to primitive value'')))"
    by (simp add: callTool_def nullish_def o template_def TypeError_def sample_platform_def
        Let_def)
  show ?thesis
    using a b c d by (simp add: createErrorResponse_minimal_def error_envelope_def)
qed

text \<open>
  C7, amended. For a \<open>tools/call\<close> whose \<open>params\<close> is neither \<open>undefined\<close> nor
  \<open>null\<close> and whose \<open>params.name\<close> is not \<open>get_reranking\<close> and converts to the
  string \<open>s\<close> (as every string, number, boolean and \<open>null\<close> does, and every object and
  array that holds no own \<open>toString\<close> property): the protocol-conformant server
  answers with the error of code -32601 (method not found); the minimal server answers with
  the error of code -32603 and a \<open>null\<close> id; the stdio handler throws an \<open>Error\<close>.
  Each carries the message \<open>Unknown tool: \<close> followed by \<open>s\<close>. None validates the
  arguments or sends a request upstream.
\<close>

theorem unknown_tool_by_variant:
  assumes "\<not> nullish params"
    and "getprop params (lit ''name'') \<noteq> JStr (lit ''get_reranking'')"
    and "template p (getprop params (lit ''name'')) = Inr s"
  shows "callTool p fetch params id' =
           ([], Inr (createErrorResponse (lit ''Unknown tool: '' @ s) id' (- 32601))) \<and>
         callTool_minimal p fetch params =
           ([], Inr (createErrorResponse (lit ''Unknown tool: '' @ s) JNull (- 32603))) \<and>
         CallToolRequest_handler p fetch params =
           ([], Inl (Error (lit ''Unknown tool: '' @ s)))"
  using assms
  by (simp add: callTool_def callTool_minimal_def CallToolRequest_handler_def Let_def
      METHOD_NOT_FOUND_def createErrorResponse_minimal_def createErrorResponse_def
      error_envelope_def)

theorem unknown_tool_by_variant_witness:
  "\<not> nullish (JObj [(lit ''name'', JStr (lit ''rank''))]) \<and>
   getprop (JObj [(lit ''name'', JStr (lit ''rank''))]) (lit ''name'') \<noteq> JStr (lit ''get_reranking'') \<and>
   template sample_platform (getprop (JObj [(lit ''name'', JStr (lit ''rank''))]) (lit ''name'')) =
     Inr (lit ''rank'') \<and>
   callTool sample_platform unreachable (JObj [(lit ''name'', JStr (lit ''rank''))]) (JNum 1) =
     ([], Inr (createErrorResponse (lit ''Unknown tool: rank'') (JNum 1) (- 32601)))"
proof -
  let ?params = "JObj [(lit ''name'', JStr (lit ''rank''))]"
  have h1: "\<not> nullish ?params" by (simp add: nullish_def)
  have n: "getprop ?params (lit ''name'') = JStr (lit ''rank'')"
    by (simp add: getprop_def)
  have ne: "lit ''rank'' \<noteq> lit ''get_reranking''"
    by (simp add: lit_def)
  have h2: "getprop ?params (lit ''name'') \<noteq> JStr (lit ''get_reranking'')"
    using n ne by simp
  have h3: "template sample_platform (getprop ?params (lit ''name'')) = Inr (lit ''rank'')"
    unfolding n by (rule template_JStr)
  have m: "lit ''Unknown tool: '' @ lit ''rank'' = lit ''Unknown tool: rank''"
    by (simp add: lit_def)
  show ?thesis
    using unknown_tool_by_variant [OF h1 h2 h3, of unreachable "JNum 1"] h1 h2 h3
    unfolding m by blast
qed

section \<open>Validation of the upstream response\<close>

lemma z_number_Some: "z_number x = Some r \<longleftrightarrow> x = JNum r"
  by (cases x) (auto simp: z_number_def)

lemma z_int_Some: "z_int r = Some i \<longleftrightarrow> r = i \<and> i \<in> \<int>"
  by (auto simp: z_int_def Ints_def)

lemma index_schema_Some:
  "index_schema x = Some i \<longleftrightarrow> x = JNum i \<and> i \<in> \<int> \<and> 0 \<le> i \<and> i \<le> 1000"
proof (cases "z_number x")
  case None
  then show ?thesis
    using z_number_Some [of x i] by (auto simp: index_schema_def)
next
  case (Some r)
  then have x: "x = JNum r" by (simp add: z_number_Some)
  show ?thesis
  proof (cases "z_int r")
    case None
    then show ?thesis
      using Some x z_int_Some [of r i] by (auto simp: index_schema_def)
  next
    case int: (Some j)
    then have "r = j" "j \<in> \<int>" by (simp_all add: z_int_Some)
    then show ?thesis
      using Some int x by (auto simp: index_schema_def z_min_number_def z_max_number_def)
  qed
qed

lemma relevance_score_schema_Some:
  "relevance_score_schema x = Some s \<longleftrightarrow> x = JNum s \<and> 0 \<le> s \<and> s \<le> 1"
  by (cases x)
    (auto simp: relevance_score_schema_def z_number_def z_min_number_def z_max_number_def)

lemma field_names: "lit ''index'' \<noteq> lit ''relevance_score''"
  by (simp add: lit_def)

lemma getprop_extract_result:
  "getprop (extract_result r) (lit ''index'') = getprop r (lit ''index'')"
  "getprop (extract_result r) (lit ''relevance_score'') = getprop r (lit ''relevance_score'')"
  using field_names by (simp_all add: extract_result_def getprop_def)

text \<open>
  The result schema accepts the extract of an element exactly when the element is
  well formed, and the value it returns is that extract.
\<close>

lemma RerankResultSchema_safeParse_extract:
  "RerankResultSchema_safeParse (extract_result r) = Some x \<longleftrightarrow>
     well_formed_result r \<and> rerank_result_value x = extract_result r"
proof -
  obtain i s where x: "x = \<lparr>index = i, relevance_score = s\<rparr>" by (cases x) auto
  have obj: "extract_result r = JObj [(lit ''index'', getprop r (lit ''index'')),
      (lit ''relevance_score'', getprop r (lit ''relevance_score''))]"
    by (simp add: extract_result_def)
  have "RerankResultSchema_safeParse (extract_result r) = Some x \<longleftrightarrow>
      index_schema (getprop r (lit ''index'')) = Some i \<and>
      relevance_score_schema (getprop r (lit ''relevance_score'')) = Some s"
    using getprop_extract_result [of r]
    by (auto simp: RerankResultSchema_safeParse_def obj x bind_eq_Some_conv)
  also have "\<dots> \<longleftrightarrow> well_formed_result r \<and> rerank_result_value x = extract_result r"
    by (auto simp: index_schema_Some relevance_score_schema_Some well_formed_result_def
        rerank_result_value_def x obj)
  finally show ?thesis .
qed

lemma well_formed_result_value:
  "well_formed_result r \<Longrightarrow> \<exists>x. RerankResultSchema_safeParse (extract_result r) = Some x"
proof -
  assume wf: "well_formed_result r"
  then obtain i s where "getprop r (lit ''index'') = JNum i"
    "getprop r (lit ''relevance_score'') = JNum s"
    by (auto simp: well_formed_result_def)
  then have "rerank_result_value \<lparr>index = i, relevance_score = s\<rparr> = extract_result r"
    by (simp add: rerank_result_value_def extract_result_def)
  with wf show ?thesis
    using RerankResultSchema_safeParse_extract by blast
qed

lemma those_result_schema:
  "those (map (\<lambda>r. RerankResultSchema_safeParse (extract_result r)) rs) = Some xs \<longleftrightarrow>
     list_all well_formed_result rs \<and> map rerank_result_value xs = map extract_result rs"
proof (induction rs arbitrary: xs)
  case Nil
  then show ?case by auto
next
  case (Cons r rs)
  let ?tail = "those (map (\<lambda>r. RerankResultSchema_safeParse (extract_result r)) rs)"
  show ?case
  proof (cases "RerankResultSchema_safeParse (extract_result r)")
    case None
    then have "\<not> well_formed_result r"
      using well_formed_result_value [of r] by auto
    then show ?thesis using None by simp
  next
    case (Some y)
    then have y: "well_formed_result r" "rerank_result_value y = extract_result r"
      using RerankResultSchema_safeParse_extract by blast+
    have head: "those (map (\<lambda>r. RerankResultSchema_safeParse (extract_result r)) (r # rs)) =
        map_option ((#) y) ?tail"
      using Some by simp
    show ?thesis
    proof
      assume "those (map (\<lambda>r. RerankResultSchema_safeParse (extract_result r)) (r # rs)) = Some xs"
      then obtain zs where zs: "?tail = Some zs" and xs: "xs = y # zs"
        unfolding head by (cases ?tail) auto
      from zs have "list_all well_formed_result rs"
        and "map rerank_result_value zs = map extract_result rs"
        using Cons.IH [of zs] by blast+
      then show "list_all well_formed_result (r # rs) \<and>
          map rerank_result_value xs = map extract_result (r # rs)"
        using y xs by simp
    next
      assume r: "list_all well_formed_result (r # rs) \<and>
          map rerank_result_value xs = map extract_result (r # rs)"
      then obtain z zs where xs: "xs = z # zs" by (cases xs) auto
      from r xs have z: "rerank_result_value z = extract_result r"
        and zs: "map rerank_result_value zs = map extract_result rs"
        and wf: "list_all well_formed_result rs"
        by simp_all
      have "RerankResultSchema_safeParse (extract_result r) = Some z"
        using z y(1) RerankResultSchema_safeParse_extract by blast
      then have "z = y" using Some by simp
      moreover have "?tail = Some zs"
        using wf zs Cons.IH [of zs] by blast
      ultimately show "those (map (\<lambda>r. RerankResultSchema_safeParse (extract_result r)) (r # rs)) = Some xs"
        unfolding head xs by simp
    qed
  qed
qed

lemma getprop_results_object:
  "getprop (JObj [(lit ''results'', x)]) (lit ''results'') = x"
  by (simp add: getprop_def)

text \<open>
  The response schema accepts the object of the extracts exactly when there are 1 to
  1000 elements, all well formed, and the value it returns is that object.
\<close>

lemma RerankResponseSchema_safeParse_results_object:
  "RerankResponseSchema_safeParse (results_object rs) = Some x \<longleftrightarrow>
     1 \<le> length rs \<and> length rs \<le> 1000 \<and> list_all well_formed_result rs \<and>
     rerank_response_value x = results_object rs"
proof -
  obtain xs where x: "x = \<lparr>results = xs\<rparr>" by (cases x) auto
  have len: "length xs = length rs" if "map rerank_result_value xs = map extract_result rs"
    using that by (metis length_map)
  have "RerankResponseSchema_safeParse (results_object rs) = Some x \<longleftrightarrow>
      results_schema (JArr (map extract_result rs)) = Some xs"
    by (auto simp: RerankResponseSchema_safeParse_def results_object_def x
        getprop_results_object bind_eq_Some_conv)
  also have "\<dots> \<longleftrightarrow> those (map (\<lambda>r. RerankResultSchema_safeParse (extract_result r)) rs) = Some xs \<and>
      1 \<le> length xs \<and> length xs \<le> 1000"
    by (cases "those (map (\<lambda>r. RerankResultSchema_safeParse (extract_result r)) rs)")
      (auto simp: results_schema_def z_array_def z_min_def z_max_def comp_def)
  also have "\<dots> \<longleftrightarrow> 1 \<le> length rs \<and> length rs \<le> 1000 \<and> list_all well_formed_result rs \<and>
      rerank_response_value x = results_object rs"
    using len by (auto simp: those_result_schema rerank_response_value_def results_object_def x)
  finally show ?thesis .
qed

lemma well_formed_results_values:
  "list_all well_formed_result rs \<Longrightarrow> \<exists>xs. map rerank_result_value xs = map extract_result rs"
proof (induction rs)
  case Nil
  then show ?case by simp
next
  case (Cons r rs)
  then obtain xs where xs: "map rerank_result_value xs = map extract_result rs" by auto
  obtain y where "RerankResultSchema_safeParse (extract_result r) = Some y"
    using Cons.prems well_formed_result_value [of r] by auto
  then have "rerank_result_value y = extract_result r"
    using RerankResultSchema_safeParse_extract by blast
  then have "map rerank_result_value (y # xs) = map extract_result (r # rs)"
    using xs by simp
  then show ?case by blast
qed

lemma well_formed_results_accepted:
  assumes "1 \<le> length rs" and "length rs \<le> 1000" and "list_all well_formed_result rs"
  shows "\<exists>x. RerankResponseSchema_safeParse (results_object rs) = Some x \<and>
             rerank_response_value x = results_object rs"
proof -
  obtain xs where "map rerank_result_value xs = map extract_result rs"
    using assms(3) well_formed_results_values by blast
  then have "rerank_response_value \<lparr>results = xs\<rparr> = results_object rs"
    by (simp add: rerank_response_value_def results_object_def)
  then show ?thesis
    using assms RerankResponseSchema_safeParse_results_object by blast
qed

lemma well_formed_resultI:
  assumes "getprop r (lit ''index'') = JNum i" and "i \<in> \<int>" and "0 \<le> i" and "i \<le> 1000"
    and "getprop r (lit ''relevance_score'') = JNum s" and "0 \<le> s" and "s \<le> 1"
  shows "well_formed_result r"
  using assms by (auto simp: well_formed_result_def)

lemma well_formed_result_not_nullish: "well_formed_result r \<Longrightarrow> \<not> nullish r"
proof
  assume "well_formed_result r" and "nullish r"
  then show False
    using getprop_nullish [of r "lit ''index''"] by (auto simp: well_formed_result_def)
qed

text \<open>The callback of \<open>map\<close> throws on the first \<open>null\<close> element, and extracts otherwise.\<close>

lemma map_results_defined:
  "list_all (\<lambda>r. \<not> nullish r) rs \<Longrightarrow> map_results p rs = Inr (map extract_result rs)"
  by (induction rs) (simp_all add: member_defined extract_result_def)

lemma map_results_nullish:
  "list_ex nullish rs \<Longrightarrow> \<exists>e. map_results p rs = Inl e"
proof (induction rs)
  case Nil
  then show ?case by simp
next
  case (Cons r rs)
  show ?case
  proof (cases "nullish r")
    case True
    then show ?thesis by (simp add: member_def)
  next
    case False
    then obtain e where "map_results p rs = Inl e" using Cons by auto
    then show ?thesis using False by (simp add: member_defined)
  qed
qed

text \<open>What the client does with a response of status 200 to 299 whose body parsed.\<close>

lemma makeRerankRequest_ok:
  assumes "fetch (rerank_http_request q ds k) = Inr response"
    and "ok response"
    and "json response = Inr body"
  shows "makeRerankRequest p fetch q ds k =
           ([rerank_http_request q ds k],
            (case member p body (lit ''results'') of
               Inl error \<Rightarrow> Inl (makeRerankRequest_catch error)
             | Inr rs \<Rightarrow>
                 if \<not> truthy rs then Inl (Error (lit ''Invalid API response format''))
                 else
                   (case results_map p rs of
                      Inl error \<Rightarrow> Inl (makeRerankRequest_catch error)
                    | Inr mapped \<Rightarrow>
                        (case RerankResponseSchema_safeParse (JObj [(lit ''results'', JArr mapped)]) of
                           Some r \<Rightarrow> Inr r
                         | None \<Rightarrow>
                             Inl (ZodError p RerankResponseSchema
                                    (JObj [(lit ''results'', JArr mapped)]))))))"
  using assms
  by (simp add: makeRerankRequest_def makeRerankRequest_try_def Let_def
      RerankResponseSchema_parse_def makeRerankRequest_catch_Error makeRerankRequest_catch_ZodError
      split: sum.splits option.splits)

section \<open>A well-formed upstream response\<close>

text \<open>
  C2. When the upstream answers with a status in 200 to 299 and a body whose
  \<open>results\<close> array has 1 to 1000 elements, each with an integer \<open>index\<close> in
  [0, 1000] and a \<open>relevance_score\<close> in [0, 1], the \<open>tools/call\<close> result is a content
  of exactly one text item, whose text is \<open>JSON.stringify\<close> of the object
  \<open>{results: [{index, relevance_score}, ...]}\<close> holding the two fields of each
  upstream element, in the upstream order; where the platform's \<open>JSON.parse\<close> inverts
  its \<open>JSON.stringify\<close> on that object, the text parses to it. An element that has
  just these two fields is passed on as it is.
\<close>

theorem well_formed_response_round_trip:
  assumes "getprop params (lit ''name'') = JStr (lit ''get_reranking'')"
    and "getprop params (lit ''arguments'') = args"
    and "RerankRequestSchema_safeParse args = Some v"
    and "fetch (rerank_http_request (query v) (documents v) (api_key v)) = Inr response"
    and "ok response"
    and "json response = Inr body"
    and "getprop body (lit ''results'') = JArr rs"
    and "1 \<le> length rs" and "length rs \<le> 1000"
    and "list_all well_formed_result rs"
    and "JSON_parse p (JSON_stringify p (results_object rs) 2) = Inr (results_object rs)"
  shows "callTool p fetch params id' =
           ([rerank_http_request (query v) (documents v) (api_key v)],
            Inr \<lparr>resp_body = Some
                   (JObj [(lit ''jsonrpc'', JStr (lit ''2.0'')),
                          (lit ''id'', id'),
                          (lit ''result'',
                           JObj [(lit ''content'',
                                  JArr [JObj [(lit ''type'', JStr (lit ''text'')),
                                              (lit ''text'',
                                               JStr (JSON_stringify p (results_object rs) 2))]])])]),
                 resp_status = 200,
                 resp_headers = json_headers\<rparr>) \<and>
         JSON_parse p (JSON_stringify p (results_object rs) 2) =
           Inr (JObj [(lit ''results'', JArr (map extract_result rs))]) \<and>
         extract_result (JObj [(lit ''index'', JNum i), (lit ''relevance_score'', JNum s)]) =
           JObj [(lit ''index'', JNum i), (lit ''relevance_score'', JNum s)]"
proof -
  have nn: "\<not> nullish body" using assms(7) getprop_nullish [of body] by auto
  have all: "list_all (\<lambda>r. \<not> nullish r) rs"
    using assms(10) well_formed_result_not_nullish by (auto simp: list_all_iff)
  obtain x where x: "RerankResponseSchema_safeParse (results_object rs) = Some x"
    and val: "rerank_response_value x = results_object rs"
    using well_formed_results_accepted [OF assms(8-10)] by blast
  have client: "makeRerankRequest p fetch (query v) (documents v) (api_key v) =
      ([rerank_http_request (query v) (documents v) (api_key v)], Inr x)"
    using makeRerankRequest_ok
      [where fetch = fetch and q = "query v" and ds = "documents v" and k = "api_key v"
         and p = p, OF assms(4-6)]
      nn assms(7) all x
    by (simp add: member_defined results_map_def map_results_defined results_object_def)
  have call: "callTool p fetch params id' =
      ([rerank_http_request (query v) (documents v) (api_key v)],
       Inr \<lparr>resp_body = Some (JObj [(lit ''jsonrpc'', JStr (lit ''2.0'')),
                                    (lit ''id'', id'),
                                    (lit ''result'',
                                     JObj [(lit ''content'', rerank_content p x)])]),
            resp_status = 200,
            resp_headers = json_headers\<rparr>)"
    using callTool_valid [OF assms(1), of v p fetch id'] assms(2,3) client by simp
  have ext: "extract_result (JObj [(lit ''index'', JNum i), (lit ''relevance_score'', JNum s)]) =
      JObj [(lit ''index'', JNum i), (lit ''relevance_score'', JNum s)]"
    using field_names by (simp add: extract_result_def getprop_def)
  show ?thesis
    using call val assms(11) ext by (simp add: rerank_content_def results_object_def)
qed

theorem well_formed_response_round_trip_witness:
  "getprop sample_params (lit ''name'') = JStr (lit ''get_reranking'') \<and>
   RerankRequestSchema_safeParse sample_args =
     Some \<lparr>query = lit ''ml'', documents = [lit ''a'', lit ''b''], api_key = lit ''k''\<rparr> \<and>
   ok \<lparr>status = 200, json = Inr (JObj [(lit ''results'', JArr sample_results)])\<rparr> \<and>
   list_all well_formed_result sample_results \<and>
   callTool sample_platform (upstream 200 (JObj [(lit ''results'', JArr sample_results)]))
       sample_params (JNum 7) =
     ([sample_request],
      Inr \<lparr>resp_body = Some
             (JObj [(lit ''jsonrpc'', JStr (lit ''2.0'')),
                    (lit ''id'', JNum 7),
                    (lit ''result'',
                     JObj [(lit ''content'',
                            JArr [JObj [(lit ''type'', JStr (lit ''text'')),
                                        (lit ''text'', JStr sample_text)]])])]),
           resp_status = 200,
           resp_headers = json_headers\<rparr>) \<and>
   JSON_parse sample_platform sample_text =
     Inr (JObj [(lit ''results'',
                 JArr [JObj [(lit ''index'', JNum 1), (lit ''relevance_score'', JNum (4 / 5))],
                       JObj [(lit ''index'', JNum 0), (lit ''relevance_score'', JNum (1 / 10))]])])"
proof -
  let ?v = "\<lparr>query = lit ''ml'', documents = [lit ''a'', lit ''b''], api_key = lit ''k''\<rparr>"
  let ?body = "JObj [(lit ''results'', JArr sample_results)]"
  let ?response = "\<lparr>status = 200, json = Inr ?body\<rparr>"
  have h1: "getprop sample_params (lit ''name'') = JStr (lit ''get_reranking'')"
    by (simp add: sample_params_def getprop_def lit_def)
  have h2: "getprop sample_params (lit ''arguments'') = sample_args"
    by (simp add: sample_params_def getprop_def lit_def)
  have h3: "RerankRequestSchema_safeParse sample_args = Some ?v"
    by (simp add: RerankRequestSchema_safeParse_Some RerankRequest_constraints_def sample_args_def
        getprop_def trim_def lit_def is_white_space_def)
  have h4: "upstream 200 ?body (rerank_http_request (query ?v) (documents ?v) (api_key ?v)) =
      Inr ?response"
    by (simp add: upstream_def)
  have h5: "ok ?response" by (simp add: ok_def)
  have h6: "json ?response = Inr ?body" by simp
  have h7: "getprop ?body (lit ''results'') = JArr sample_results"
    by (simp add: getprop_def)
  have h8: "1 \<le> length sample_results" and h9: "length sample_results \<le> 1000"
    by (simp_all add: sample_results_def)
  have "well_formed_result (JObj [(lit ''index'', JNum 1), (lit ''relevance_score'', JNum (4 / 5)),
      (lit ''document'', JStr (lit ''b''))])"
    by (rule well_formed_resultI [of _ 1 "4 / 5"]) (simp_all add: getprop_def lit_def)
  moreover have "well_formed_result (JObj [(lit ''index'', JNum 0),
      (lit ''relevance_score'', JNum (1 / 10))])"
    by (rule well_formed_resultI [of _ 0 "1 / 10"]) (simp_all add: getprop_def lit_def)
  ultimately have h10: "list_all well_formed_result sample_results"
    by (simp add: sample_results_def)
  have h11: "JSON_parse sample_platform (JSON_stringify sample_platform (results_object sample_results) 2)
      = Inr (results_object sample_results)"
    by (simp add: sample_platform_def)
  have stringified: "JSON_stringify sample_platform (results_object sample_results) 2 = sample_text"
    by (simp add: sample_platform_def)
  have obj: "map extract_result sample_results =
      [JObj [(lit ''index'', JNum 1), (lit ''relevance_score'', JNum (4 / 5))],
       JObj [(lit ''index'', JNum 0), (lit ''relevance_score'', JNum (1 / 10))]]"
    by (simp add: sample_results_def extract_result_def getprop_def lit_def)
  show ?thesis
    using well_formed_response_round_trip
      [where fetch = "upstream 200 ?body" and p = sample_platform and v = ?v and id' = "JNum 7",
        OF h1 h2 h3 h4 h5 h6 h7 h8 h9 h10 h11]
      h1 h3 h5 h10
    by (simp add: stringified obj sample_request_def)
qed

section \<open>A malformed upstream response\<close>

text \<open>
  C5. When the upstream answers with a status in 200 to 299 and a body that is not a
  well-formed response (its \<open>results\<close> field is missing or is not an array, or the array
  has no element or more than 1000, or some element has no integer \<open>index\<close> in
  [0, 1000] or no \<open>relevance_score\<close> in [0, 1]), the rerank client throws, and
  \<open>tools/call\<close> returns an error response and no result, whatever the other elements
  are. The error is \<open>Invalid API response format\<close> when the field is missing from a
  body that is not \<open>null\<close>, and the \<open>ZodError\<close> of the response schema when no
  element of the array is \<open>null\<close>.
\<close>

theorem malformed_response_fails_closed:
  assumes "getprop params (lit ''name'') = JStr (lit ''get_reranking'')"
    and "getprop params (lit ''arguments'') = args"
    and "RerankRequestSchema_safeParse args = Some v"
    and "fetch (rerank_http_request (query v) (documents v) (api_key v)) = Inr response"
    and "ok response"
    and "json response = Inr body"
    and "getprop body (lit ''results'') = JUndefined \<or>
         (\<exists>rs. getprop body (lit ''results'') = JArr rs \<and>
               (length rs < 1 \<or> 1000 < length rs \<or> list_ex (\<lambda>r. \<not> well_formed_result r) rs))"
  shows "\<exists>e. makeRerankRequest p fetch (query v) (documents v) (api_key v) =
               ([rerank_http_request (query v) (documents v) (api_key v)], Inl e) \<and>
             callTool p fetch params id' =
               ([rerank_http_request (query v) (documents v) (api_key v)],
                Inr (createErrorResponse (error_message e) id' (- 32602))) \<and>
             (\<not> nullish body \<and> getprop body (lit ''results'') = JUndefined \<longrightarrow>
                e = Error (lit ''Invalid API response format'')) \<and>
             (getprop body (lit ''results'') = JArr elems \<and> list_all (\<lambda>r. \<not> nullish r) elems \<longrightarrow>
                e = ZodError p RerankResponseSchema (results_object elems))"
proof -
  let ?request = "rerank_http_request (query v) (documents v) (api_key v)"
  note client = makeRerankRequest_ok
      [where fetch = fetch and q = "query v" and ds = "documents v" and k = "api_key v"
         and p = p, OF assms(4-6)]
  have call: "callTool p fetch params id' =
      ([?request], Inr (createErrorResponse (error_message e) id' (- 32602)))"
    if "makeRerankRequest p fetch (query v) (documents v) (api_key v) = ([?request], Inl e)"
    for e
    using callTool_valid [OF assms(1), of v p fetch id'] assms(2,3) that
    by (simp add: INVALID_PARAMS_def)
  have fails: "\<exists>e. makeRerankRequest p fetch (query v) (documents v) (api_key v) =
        ([?request], Inl e) \<and>
      (\<not> nullish body \<and> getprop body (lit ''results'') = JUndefined \<longrightarrow>
         e = Error (lit ''Invalid API response format'')) \<and>
      (getprop body (lit ''results'') = JArr elems \<and> list_all (\<lambda>r. \<not> nullish r) elems \<longrightarrow>
         e = ZodError p RerankResponseSchema (results_object elems))"
  proof (cases "nullish body")
    case True
    then show ?thesis
      using client getprop_nullish [of body "lit ''results''"] by (simp add: member_def)
  next
    case False
    note body = this
    show ?thesis
    proof (cases "getprop body (lit ''results'') = JUndefined")
      case True
      then show ?thesis using client body by (simp add: member_defined)
    next
      case False
      then obtain rs where rs: "getprop body (lit ''results'') = JArr rs"
        and bad: "length rs < 1 \<or> 1000 < length rs \<or> list_ex (\<lambda>r. \<not> well_formed_result r) rs"
        using assms(7) by blast
      show ?thesis
      proof (cases "list_ex nullish rs")
        case True
        then obtain e where "map_results p rs = Inl e"
          using map_results_nullish by blast
        moreover have "\<not> list_all (\<lambda>r. \<not> nullish r) rs"
          using True by (auto simp: list_all_iff list_ex_iff)
        ultimately show ?thesis
          using client body rs by (auto simp: member_defined results_map_def)
      next
        case False
        then have all: "list_all (\<lambda>r. \<not> nullish r) rs"
          by (auto simp: list_all_iff list_ex_iff)
        have "\<not> (1 \<le> length rs \<and> length rs \<le> 1000 \<and> list_all well_formed_result rs)"
          using bad by (auto simp: list_all_iff list_ex_iff)
        then have "RerankResponseSchema_safeParse (results_object rs) = None"
          using RerankResponseSchema_safeParse_results_object [of rs]
          by (cases "RerankResponseSchema_safeParse (results_object rs)") auto
        then show ?thesis
          using client body rs all
          by (simp add: member_defined results_map_def map_results_defined results_object_def)
      qed
    qed
  qed
  then show ?thesis using call by blast
qed

theorem malformed_response_fails_closed_witness:
  "getprop sample_params (lit ''name'') = JStr (lit ''get_reranking'') \<and>
   RerankRequestSchema_safeParse sample_args =
     Some \<lparr>query = lit ''ml'', documents = [lit ''a'', lit ''b''], api_key = lit ''k''\<rparr> \<and>
   ok \<lparr>status = 200,
       json = Inr (JObj [(lit ''results'',
                          JArr [JObj [(lit ''index'', JNum 0), (lit ''relevance_score'', JNum (1 / 2))],
                                JObj [(lit ''index'', JNum 1), (lit ''relevance_score'', JNum (3 / 2))]])])\<rparr> \<and>
   list_ex (\<lambda>r. \<not> well_formed_result r)
     [JObj [(lit ''index'', JNum 0), (lit ''relevance_score'', JNum (1 / 2))],
      JObj [(lit ''index'', JNum 1), (lit ''relevance_score'', JNum (3 / 2))]] \<and>
   callTool sample_platform
       (upstream 200
          (JObj [(lit ''results'',
                  JArr [JObj [(lit ''index'', JNum 0), (lit ''relevance_score'', JNum (1 / 2))],
                        JObj [(lit ''index'', JNum 1), (lit ''relevance_score'', JNum (3 / 2))]])]))
       sample_params (JNum 7) =
     ([sample_request], Inr (createErrorResponse (lit ''Invalid input'') (JNum 7) (- 32602)))"
proof -
  let ?v = "\<lparr>query = lit ''ml'', documents = [lit ''a'', lit ''b''], api_key = lit ''k''\<rparr>"
  let ?rs = "[JObj [(lit ''index'', JNum 0), (lit ''relevance_score'', JNum (1 / 2))],
              JObj [(lit ''index'', JNum 1), (lit ''relevance_score'', JNum (3 / 2))]]"
  let ?body = "JObj [(lit ''results'', JArr ?rs)]"
  let ?response = "\<lparr>status = 200, json = Inr ?body\<rparr>"
  have h1: "getprop sample_params (lit ''name'') = JStr (lit ''get_reranking'')"
    by (simp add: sample_params_def getprop_def lit_def)
  have h2: "getprop sample_params (lit ''arguments'') = sample_args"
    by (simp add: sample_params_def getprop_def lit_def)
  have h3: "RerankRequestSchema_safeParse sample_args = Some ?v"
    by (simp add: RerankRequestSchema_safeParse_Some RerankRequest_constraints_def sample_args_def
        getprop_def trim_def lit_def is_white_space_def)
  have h4: "upstream 200 ?body (rerank_http_request (query ?v) (documents ?v) (api_key ?v)) =
      Inr ?response"
    by (simp add: upstream_def)
  have h5: "ok ?response" by (simp add: ok_def)
  have h6: "json ?response = Inr ?body" by simp
  have rs: "getprop ?body (lit ''results'') = JArr ?rs"
    by (simp add: getprop_def)
  have "\<not> well_formed_result (JObj [(lit ''index'', JNum 1), (lit ''relevance_score'', JNum (3 / 2))])"
    by (simp add: well_formed_result_def getprop_def lit_def)
  then have bad: "list_ex (\<lambda>r. \<not> well_formed_result r) ?rs" by simp
  then have h7: "getprop ?body (lit ''results'') = JUndefined \<or>
      (\<exists>rs. getprop ?body (lit ''results'') = JArr rs \<and>
            (length rs < 1 \<or> 1000 < length rs \<or> list_ex (\<lambda>r. \<not> well_formed_result r) rs))"
    using rs by blast
  have nn: "list_all (\<lambda>r. \<not> nullish r) ?rs" by (simp add: nullish_def)
  have m: "error_message (ZodError sample_platform RerankResponseSchema (results_object ?rs)) =
      lit ''Invalid input''"
    by (simp add: ZodError_def sample_platform_def)
  show ?thesis
    using malformed_response_fails_closed
      [where fetch = "upstream 200 ?body" and p = sample_platform and v = ?v and id' = "JNum 7"
         and elems = ?rs, OF h1 h2 h3 h4 h5 h6 h7]
      h1 h3 h5 bad rs nn m
    by (auto simp: sample_request_def)
qed

section \<open>Failures at the handle boundary\<close>

lemma callTool_minimal_invalid:
  assumes "getprop params (lit ''name'') = JStr (lit ''get_reranking'')"
    and "RerankRequestSchema_safeParse (getprop params (lit ''arguments'')) = None"
  shows "callTool_minimal p fetch params =
           ([], Inr (createErrorResponse_minimal
                       (ZodError_message p RerankRequestSchema (getprop params (lit ''arguments'')))
                       JUndefined))"
proof -
  have "\<not> nullish params" using assms(1) by (rule getprop_JStr)
  then show ?thesis
    using assms by (simp add: callTool_minimal_def RerankRequestSchema_parse_def ZodError_def)
qed

lemma callTool_minimal_client_error:
  assumes "getprop params (lit ''name'') = JStr (lit ''get_reranking'')"
    and "RerankRequestSchema_safeParse (getprop params (lit ''arguments'')) = Some v"
    and "makeRerankRequest p fetch (query v) (documents v) (api_key v) = (sent, Inl e)"
  shows "callTool_minimal p fetch params =
           (sent, Inr (createErrorResponse_minimal (error_message e) JUndefined))"
proof -
  have "\<not> nullish params" using assms(1) by (rule getprop_JStr)
  then show ?thesis
    using assms by (simp add: callTool_minimal_def RerankRequestSchema_parse_def)
qed

lemma handleRequest_minimal_tools_call:
  assumes "getprop body (lit ''method'') = JStr (lit ''tools/call'')"
  shows "handleRequest_minimal p fetch (Inr body) =
           callTool_minimal p fetch (getprop body (lit ''params''))"
proof -
  have "\<not> nullish body" using assms by (rule getprop_JStr)
  moreover have "lit ''tools/call'' \<noteq> lit ''tools/list''" by (simp add: lit_def)
  ultimately show ?thesis
    using assms by (simp add: handleRequest_minimal_def member_defined)
qed

lemma handler_invalid:
  assumes "getprop params (lit ''name'') = JStr (lit ''get_reranking'')"
    and "RerankRequestSchema_safeParse (getprop params (lit ''arguments'')) = None"
  shows "CallToolRequest_handler p fetch params =
           ([], Inr (JObj [(lit ''content'',
                            JArr [JObj [(lit ''type'', JStr (lit ''text'')),
                                        (lit ''text'',
                                         JStr (lit ''Error: '' @
                                           ZodError_message p RerankRequestSchema
                                             (getprop params (lit ''arguments''))))]]),
                           (lit ''isError'', JBool True)]))"
proof -
  have "\<not> nullish params" using assms(1) by (rule getprop_JStr)
  then show ?thesis
    using assms by (simp add: CallToolRequest_handler_def RerankRequestSchema_parse_def ZodError_def)
qed

lemma handler_client_error:
  assumes "getprop params (lit ''name'') = JStr (lit ''get_reranking'')"
    and "RerankRequestSchema_safeParse (getprop params (lit ''arguments'')) = Some v"
    and "makeRerankRequest p fetch (query v) (documents v) (api_key v) = (sent, Inl e)"
  shows "CallToolRequest_handler p fetch params =
           (sent, Inr (JObj [(lit ''content'',
                              JArr [JObj [(lit ''type'', JStr (lit ''text'')),
                                          (lit ''text'', JStr (lit ''Error: '' @ error_message e))]]),
                             (lit ''isError'', JBool True)]))"
proof -
  have "\<not> nullish params" using assms(1) by (rule getprop_JStr)
  then show ?thesis
    using assms by (simp add: CallToolRequest_handler_def RerankRequestSchema_parse_def)
qed

text \<open>\<open>callTool\<close> resolves to a response except in the two cases of \<open>callTool_throws\<close>.\<close>

lemma callTool_responds:
  "(\<exists>r. snd (callTool p fetch params id') = Inr r) \<longleftrightarrow> \<not> callTool_throws params"
proof (cases "nullish params")
  case True
  then show ?thesis by (simp add: callTool_def callTool_throws_def)
next
  case False
  note present = this
  show ?thesis
  proof (cases "getprop params (lit ''name'') = JStr (lit ''get_reranking'')")
    case True
    then show ?thesis
      using present
      by (auto simp: callTool_def callTool_throws_def split: sum.splits prod.splits)
  next
    case False
    show ?thesis
    proof (cases "template p (getprop params (lit ''name''))")
      case (Inl e)
      then have "ToString_throws (getprop params (lit ''name''))"
        by (simp add: template_Inl)
      then show ?thesis
        using present False Inl by (simp add: callTool_def callTool_throws_def)
    next
      case (Inr s)
      then have "\<not> ToString_throws (getprop params (lit ''name''))"
        using template_Inr by blast
      then show ?thesis
        using present False Inr by (simp add: callTool_def callTool_throws_def)
    qed
  qed
qed

lemma callTool_minimal_responds:
  "(\<exists>r. snd (callTool_minimal p fetch params) = Inr r) \<longleftrightarrow> \<not> callTool_throws params"
proof (cases "nullish params")
  case True
  then show ?thesis by (simp add: callTool_minimal_def callTool_throws_def)
next
  case False
  note present = this
  show ?thesis
  proof (cases "getprop params (lit ''name'') = JStr (lit ''get_reranking'')")
    case True
    then show ?thesis
      using present
      by (auto simp: callTool_minimal_def callTool_throws_def split: sum.splits prod.splits)
  next
    case False
    show ?thesis
    proof (cases "template p (getprop params (lit ''name''))")
      case (Inl e)
      then have "ToString_throws (getprop params (lit ''name''))"
        by (simp add: template_Inl)
      then show ?thesis
        using present False Inl by (simp add: callTool_minimal_def callTool_throws_def)
    next
      case (Inr s)
      then have "\<not> ToString_throws (getprop params (lit ''name''))"
        using template_Inr by blast
      then show ?thesis
        using present False Inr by (simp add: callTool_minimal_def callTool_throws_def)
    qed
  qed
qed

lemma handleRequest_responds:
  assumes "\<not> (getprop body (lit ''method'') = JStr (lit ''tools/call'') \<and>
              callTool_throws (getprop body (lit ''params'')))"
  shows "\<exists>r. snd (snd (handleRequest p fetch this (Inr body))) = Inr r"
proof (cases "getprop body (lit ''jsonrpc'') = JStr (lit ''2.0'') \<and>
    getprop body (lit ''method'') = JStr (lit ''tools/call'')")
  case True
  then have "handleRequest p fetch this (Inr body) =
      (this, callTool p fetch (getprop body (lit ''params'')) (getprop body (lit ''id'')))"
    using handleRequest_tools_call by blast
  moreover have "\<not> callTool_throws (getprop body (lit ''params''))" using True assms by blast
  ultimately show ?thesis
    using callTool_responds [of p fetch "getprop body (lit ''params'')" "getprop body (lit ''id'')"]
    by simp
next
  case False
  then show ?thesis
    by (auto simp: handleRequest_def member_def handleInitialize_def Let_def)
qed

lemma handleRequest_minimal_responds:
  assumes "\<not> (getprop body (lit ''method'') = JStr (lit ''tools/call'') \<and>
              callTool_throws (getprop body (lit ''params'')))"
  shows "\<exists>r. snd (handleRequest_minimal p fetch (Inr body)) = Inr r"
proof (cases "getprop body (lit ''method'') = JStr (lit ''tools/call'')")
  case True
  then have "handleRequest_minimal p fetch (Inr body) =
      callTool_minimal p fetch (getprop body (lit ''params''))"
    by (rule handleRequest_minimal_tools_call)
  moreover have "\<not> callTool_throws (getprop body (lit ''params''))" using True assms by blast
  ultimately show ?thesis
    using callTool_minimal_responds [of p fetch "getprop body (lit ''params'')"] by simp
next
  case False
  then show ?thesis
    by (auto simp: handleRequest_minimal_def member_def)
qed

text \<open>
  C6, counterexample. In the stdio handler a validation failure is returned as a tool
  result, not as a JSON-RPC error object, and its text is the failure's message behind
  the prefix \<open>Error: \<close>. In the protocol-conformant server a \<open>tools/call\<close> request
  without \<open>params\<close> makes \<open>handleRequest\<close> throw: the promise of \<open>callTool\<close> is
  returned without being awaited, so the \<open>catch\<close> does not see its rejection; the
  entry point answers it with a body that is no JSON-RPC error object either.
\<close>

theorem failures_not_always_error_objects:
  "CallToolRequest_handler sample_platform unreachable
       (JObj [(lit ''name'', JStr (lit ''get_reranking''))]) =
     ([], Inr (JObj [(lit ''content'',
                      JArr [JObj [(lit ''type'', JStr (lit ''text'')),
                                  (lit ''text'', JStr (lit ''Error: Invalid input''))]]),
                     (lit ''isError'', JBool True)])) \<and>
   error_message (ZodError sample_platform RerankRequestSchema JUndefined) = lit ''Invalid input'' \<and>
   handleRequest sample_platform unreachable constructor
       (Inr (JObj [(lit ''jsonrpc'', JStr (lit ''2.0'')), (lit ''id'', JNum 1),
                   (lit ''method'', JStr (lit ''tools/call''))])) =
     (constructor, [],
      Inl (JSError (lit ''TypeError'') (lit ''Cannot destructure property name of params''))) \<and>
   entry_fetch sample_platform unreachable constructor
       (Inr (JObj [(lit ''jsonrpc'', JStr (lit ''2.0'')), (lit ''id'', JNum 1),
                   (lit ''method'', JStr (lit ''tools/call''))])) =
     (constructor, [],
      \<lparr>resp_body = Some
         (JObj [(lit ''error'',
                 JStr (lit ''Worker error: Cannot destructure property name of params''))]),
       resp_status = 500,
       resp_headers = json_headers\<rparr>)"
proof -
  let ?params = "JObj [(lit ''name'', JStr (lit ''get_reranking''))]"
  let ?body = "JObj [(lit ''jsonrpc'', JStr (lit ''2.0'')), (lit ''id'', JNum 1),
                     (lit ''method'', JStr (lit ''tools/call''))]"
  have n: "getprop ?params (lit ''name'') = JStr (lit ''get_reranking'')"
    by (simp add: getprop_def)
  have a: "getprop ?params (lit ''arguments'') = JUndefined"
    by (simp add: getprop_def lit_def)
  have none: "RerankRequestSchema_safeParse (getprop ?params (lit ''arguments'')) = None"
    unfolding a by (simp add: RerankRequestSchema_safeParse_def)
  have m: "ZodError_message sample_platform RerankRequestSchema JUndefined = lit ''Invalid input''"
    by (simp add: sample_platform_def)
  have pre: "lit ''Error: '' @ lit ''Invalid input'' = lit ''Error: Invalid input''"
    by (simp add: lit_def)
  have h: "CallToolRequest_handler sample_platform unreachable ?params =
     ([], Inr (JObj [(lit ''content'',
                      JArr [JObj [(lit ''type'', JStr (lit ''text'')),
                                  (lit ''text'', JStr (lit ''Error: Invalid input''))]]),
                     (lit ''isError'', JBool True)]))"
    using handler_invalid [OF n none, of sample_platform unreachable]
    unfolding a m pre .
  have j: "getprop ?body (lit ''jsonrpc'') = JStr (lit ''2.0'')"
    and t: "getprop ?body (lit ''method'') = JStr (lit ''tools/call'')"
    and u: "getprop ?body (lit ''params'') = JUndefined"
    by (simp_all add: getprop_def lit_def)
  have c: "callTool sample_platform unreachable JUndefined i =
     ([], Inl (JSError (lit ''TypeError'') (lit ''Cannot destructure property name of params'')))"
    for i
    by (simp add: callTool_def nullish_def TypeError_def sample_platform_def)
  have r: "handleRequest sample_platform unreachable constructor (Inr ?body) =
     (constructor, [],
      Inl (JSError (lit ''TypeError'') (lit ''Cannot destructure property name of params'')))"
    using handleRequest_tools_call [OF j t, of sample_platform unreachable constructor]
    unfolding u c .
  have w: "lit ''Worker error: '' @ lit ''Cannot destructure property name of params'' =
      lit ''Worker error: Cannot destructure property name of params''"
    by (simp add: lit_def)
  have e: "entry_fetch sample_platform unreachable constructor (Inr ?body) =
     (constructor, [],
      \<lparr>resp_body = Some
         (JObj [(lit ''error'',
                 JStr (lit ''Worker error: Cannot destructure property name of params''))]),
       resp_status = 500,
       resp_headers = json_headers\<rparr>)"
    unfolding entry_fetch_def MCPServer_fetch_def r by (simp add: w)
  show ?thesis
    using h r e m by (simp add: ZodError_def)
qed

text \<open>
  C6, amended. In the two worker variants, a failure of \<open>request.json()\<close>, of the
  validation of the arguments of \<open>get_reranking\<close> or of the rerank client is answered
  with a JSON-RPC error object whose message is the message of the error thrown, as it is
  (with code -32700, -32602 and -32602 in the protocol-conformant server, and -32603 and
  a \<open>null\<close> id in the minimal one); and \<open>handleRequest\<close> resolves to a response for
  every request other than a \<open>tools/call\<close> whose \<open>params\<close> is \<open>undefined\<close> or
  \<open>null\<close>, or whose \<open>params.name\<close> is not \<open>get_reranking\<close> and has no string
  conversion. In the stdio handler a failure of the validation or of the rerank client is
  returned as a tool result with \<open>isError\<close> true, whose text is \<open>Error: \<close> followed by
  the message.
\<close>

theorem failures_become_error_responses:
  assumes "getprop body (lit ''method'') = JStr (lit ''tools/call'')"
    and "getprop body (lit ''params'') = params"
    and "getprop params (lit ''name'') = JStr (lit ''get_reranking'')"
    and "getprop params (lit ''arguments'') = args"
  shows "handleRequest p fetch this (Inl e0) =
           (this, [], Inr (createErrorResponse (error_message e0) JNull (- 32700))) \<and>
         (getprop body (lit ''jsonrpc'') = JStr (lit ''2.0'') \<and>
          RerankRequestSchema_parse p args = Inl e \<longrightarrow>
            handleRequest p fetch this (Inr body) =
              (this, [],
               Inr (createErrorResponse (error_message e) (getprop body (lit ''id'')) (- 32602)))) \<and>
         (getprop body (lit ''jsonrpc'') = JStr (lit ''2.0'') \<and>
          RerankRequestSchema_parse p args = Inr v \<and>
          makeRerankRequest p fetch (query v) (documents v) (api_key v) = (sent, Inl e) \<longrightarrow>
            handleRequest p fetch this (Inr body) =
              (this, sent,
               Inr (createErrorResponse (error_message e) (getprop body (lit ''id'')) (- 32602)))) \<and>
         (\<not> (getprop body' (lit ''method'') = JStr (lit ''tools/call'') \<and>
             callTool_throws (getprop body' (lit ''params''))) \<longrightarrow>
            (\<exists>r. snd (snd (handleRequest p fetch this (Inr body'))) = Inr r)) \<and>
         handleRequest_minimal p fetch (Inl e0) =
           ([], Inr (createErrorResponse (error_message e0) JNull (- 32603))) \<and>
         (RerankRequestSchema_parse p args = Inl e \<longrightarrow>
            handleRequest_minimal p fetch (Inr body) =
              ([], Inr (createErrorResponse (error_message e) JNull (- 32603)))) \<and>
         (RerankRequestSchema_parse p args = Inr v \<and>
          makeRerankRequest p fetch (query v) (documents v) (api_key v) = (sent, Inl e) \<longrightarrow>
            handleRequest_minimal p fetch (Inr body) =
              (sent, Inr (createErrorResponse (error_message e) JNull (- 32603)))) \<and>
         (\<not> (getprop body' (lit ''method'') = JStr (lit ''tools/call'') \<and>
             callTool_throws (getprop body' (lit ''params''))) \<longrightarrow>
            (\<exists>r. snd (handleRequest_minimal p fetch (Inr body')) = Inr r)) \<and>
         (RerankRequestSchema_parse p args = Inl e \<longrightarrow>
            CallToolRequest_handler p fetch params =
              ([], Inr (JObj [(lit ''content'',
                               JArr [JObj [(lit ''type'', JStr (lit ''text'')),
                                           (lit ''text'', JStr (lit ''Error: '' @ error_message e))]]),
                              (lit ''isError'', JBool True)]))) \<and>
         (RerankRequestSchema_parse p args = Inr v \<and>
          makeRerankRequest p fetch (query v) (documents v) (api_key v) = (sent, Inl e) \<longrightarrow>
            CallToolRequest_handler p fetch params =
              (sent, Inr (JObj [(lit ''content'',
                                 JArr [JObj [(lit ''type'', JStr (lit ''text'')),
                                             (lit ''text'', JStr (lit ''Error: '' @ error_message e))]]),
                                (lit ''isError'', JBool True)])))"
proof -
  have min_env: "createErrorResponse_minimal m JUndefined = createErrorResponse m JNull (- 32603)"
    for m
    by (simp add: createErrorResponse_minimal_def createErrorResponse_def error_envelope_def)
  have invalid: "RerankRequestSchema_safeParse (getprop params (lit ''arguments'')) = None \<and>
      error_message e = ZodError_message p RerankRequestSchema args"
    if "RerankRequestSchema_parse p args = Inl e"
    using that assms(4)
    by (auto simp: RerankRequestSchema_parse_def ZodError_def split: option.splits)
  have valid: "RerankRequestSchema_safeParse (getprop params (lit ''arguments'')) = Some v"
    if "RerankRequestSchema_parse p args = Inr v"
    using that assms(4) by (auto simp: RerankRequestSchema_parse_def split: option.splits)
  have c1: "handleRequest p fetch this (Inl e0) =
      (this, [], Inr (createErrorResponse (error_message e0) JNull (- 32700)))"
    by (simp add: handleRequest_def PARSE_ERROR_def)
  have c2: "handleRequest p fetch this (Inr body) =
      (this, [], Inr (createErrorResponse (error_message e) (getprop body (lit ''id'')) (- 32602)))"
    if "getprop body (lit ''jsonrpc'') = JStr (lit ''2.0'')"
      and "RerankRequestSchema_parse p args = Inl e"
    using handleRequest_tools_call [OF that(1) assms(1), of p fetch this]
      callTool_invalid [OF assms(3), of p fetch "getprop body (lit ''id'')"]
      invalid [OF that(2)] assms(2,4)
    by (simp add: INVALID_PARAMS_def)
  have c3: "handleRequest p fetch this (Inr body) =
      (this, sent, Inr (createErrorResponse (error_message e) (getprop body (lit ''id'')) (- 32602)))"
    if "getprop body (lit ''jsonrpc'') = JStr (lit ''2.0'')"
      and "RerankRequestSchema_parse p args = Inr v"
      and "makeRerankRequest p fetch (query v) (documents v) (api_key v) = (sent, Inl e)"
    using handleRequest_tools_call [OF that(1) assms(1), of p fetch this]
      callTool_valid [OF assms(3) valid [OF that(2)], of p fetch "getprop body (lit ''id'')"]
      that(3) assms(2)
    by (simp add: INVALID_PARAMS_def)
  have c4: "\<exists>r. snd (snd (handleRequest p fetch this (Inr body'))) = Inr r"
    if "\<not> (getprop body' (lit ''method'') = JStr (lit ''tools/call'') \<and>
          callTool_throws (getprop body' (lit ''params'')))"
    using that by (rule handleRequest_responds)
  have c5: "handleRequest_minimal p fetch (Inl e0) =
      ([], Inr (createErrorResponse (error_message e0) JNull (- 32603)))"
    by (simp add: handleRequest_minimal_def min_env)
  have c6: "handleRequest_minimal p fetch (Inr body) =
      ([], Inr (createErrorResponse (error_message e) JNull (- 32603)))"
    if "RerankRequestSchema_parse p args = Inl e"
    using handleRequest_minimal_tools_call [OF assms(1), of p fetch]
      callTool_minimal_invalid [OF assms(3), of p fetch] invalid [OF that] assms(2,4)
    by (simp add: min_env)
  have c7: "handleRequest_minimal p fetch (Inr body) =
      (sent, Inr (createErrorResponse (error_message e) JNull (- 32603)))"
    if "RerankRequestSchema_parse p args = Inr v"
      and "makeRerankRequest p fetch (query v) (documents v) (api_key v) = (sent, Inl e)"
    using handleRequest_minimal_tools_call [OF assms(1), of p fetch]
      callTool_minimal_client_error [OF assms(3) valid [OF that(1)] that(2)] assms(2)
    by (simp add: min_env)
  have c8: "\<exists>r. snd (handleRequest_minimal p fetch (Inr body')) = Inr r"
    if "\<not> (getprop body' (lit ''method'') = JStr (lit ''tools/call'') \<and>
          callTool_throws (getprop body' (lit ''params'')))"
    using that by (rule handleRequest_minimal_responds)
  have c9: "CallToolRequest_handler p fetch params =
      ([], Inr (JObj [(lit ''content'',
                       JArr [JObj [(lit ''type'', JStr (lit ''text'')),
                                   (lit ''text'', JStr (lit ''Error: '' @ error_message e))]]),
                      (lit ''isError'', JBool True)]))"
    if "RerankRequestSchema_parse p args = Inl e"
    using handler_invalid [OF assms(3), of p fetch] invalid [OF that] assms(4) by simp
  have c10: "CallToolRequest_handler p fetch params =
      (sent, Inr (JObj [(lit ''content'',
                         JArr [JObj [(lit ''type'', JStr (lit ''text'')),
                                     (lit ''text'', JStr (lit ''Error: '' @ error_message e))]]),
                        (lit ''isError'', JBool True)]))"
    if "RerankRequestSchema_parse p args = Inr v"
      and "makeRerankRequest p fetch (query v) (documents v) (api_key v) = (sent, Inl e)"
    using handler_client_error [OF assms(3) valid [OF that(1)] that(2)] .
  show ?thesis
    using c1 c2 c3 c4 c5 c6 c7 c8 c9 c10 by blast
qed

theorem failures_become_error_responses_witness:
  "getprop (JObj [(lit ''jsonrpc'', JStr (lit ''2.0'')), (lit ''id'', JNum 7),
                  (lit ''method'', JStr (lit ''tools/call'')), (lit ''params'', sample_params)])
     (lit ''method'') = JStr (lit ''tools/call'') \<and>
   getprop sample_params (lit ''name'') = JStr (lit ''get_reranking'') \<and>
   RerankRequestSchema_parse sample_platform sample_args =
     Inr \<lparr>query = lit ''ml'', documents = [lit ''a'', lit ''b''], api_key = lit ''k''\<rparr> \<and>
   makeRerankRequest sample_platform (upstream 429 JNull) (lit ''ml'') [lit ''a'', lit ''b''] (lit ''k'') =
     ([sample_request], Inl (Error (lit ''Rate limit exceeded''))) \<and>
   handleRequest sample_platform (upstream 429 JNull) constructor
     (Inr (JObj [(lit ''jsonrpc'', JStr (lit ''2.0'')), (lit ''id'', JNum 7),
                 (lit ''method'', JStr (lit ''tools/call'')), (lit ''params'', sample_params)])) =
     (constructor, [sample_request],
      Inr (createErrorResponse (lit ''Rate limit exceeded'') (JNum 7) (- 32602))) \<and>
   CallToolRequest_handler sample_platform (upstream 429 JNull) sample_params =
     ([sample_request],
      Inr (JObj [(lit ''content'',
                  JArr [JObj [(lit ''type'', JStr (lit ''text'')),
                              (lit ''text'', JStr (lit ''Error: Rate limit exceeded''))]]),
                 (lit ''isError'', JBool True)]))"
proof -
  let ?v = "\<lparr>query = lit ''ml'', documents = [lit ''a'', lit ''b''], api_key = lit ''k''\<rparr>"
  let ?body = "JObj [(lit ''jsonrpc'', JStr (lit ''2.0'')), (lit ''id'', JNum 7),
                     (lit ''method'', JStr (lit ''tools/call'')), (lit ''params'', sample_params)]"
  let ?e = "Error (lit ''Rate limit exceeded'')"
  have h1: "getprop ?body (lit ''method'') = JStr (lit ''tools/call'')"
    and h2: "getprop ?body (lit ''params'') = sample_params"
    and j: "getprop ?body (lit ''jsonrpc'') = JStr (lit ''2.0'')"
    and i: "getprop ?body (lit ''id'') = JNum 7"
    by (simp_all add: getprop_def lit_def)
  have h3: "getprop sample_params (lit ''name'') = JStr (lit ''get_reranking'')"
    and h4: "getprop sample_params (lit ''arguments'') = sample_args"
    by (simp_all add: sample_params_def getprop_def lit_def)
  have "RerankRequestSchema_safeParse sample_args = Some ?v"
    by (simp add: RerankRequestSchema_safeParse_Some RerankRequest_constraints_def sample_args_def
        getprop_def trim_def lit_def is_white_space_def)
  then have parse: "RerankRequestSchema_parse sample_platform sample_args = Inr ?v"
    by (simp add: RerankRequestSchema_parse_def)
  have client: "makeRerankRequest sample_platform (upstream 429 JNull) (query ?v) (documents ?v)
      (api_key ?v) = ([sample_request], Inl ?e)"
    by (simp add: makeRerankRequest_def makeRerankRequest_try_def upstream_def ok_def Let_def
        makeRerankRequest_catch_Error sample_request_def)
  have m: "error_message ?e = lit ''Rate limit exceeded''"
    by (simp add: Error_def)
  have pre: "lit ''Error: '' @ lit ''Rate limit exceeded'' = lit ''Error: Rate limit exceeded''"
    by (simp add: lit_def)
  show ?thesis
    using failures_become_error_responses
      [OF h1 h2 h3 h4, where p = sample_platform and fetch = "upstream 429 JNull" and v = ?v
         and sent = "[sample_request]" and e = ?e and this = constructor]
      h1 h3 parse client j
    unfolding i m pre by simp
qed

end
